theory Spec2Isabelle
  imports Complex_Main "HOL-Library.AList" "HOL-Library.Sublist"
begin

section \<open>Python values and errors\<close>

text \<open>
  The handlers of the bot are Python functions. An exception that a handler lets escape
  is a value of \<open>py_error\<close>: a function that can raise returns \<open>py_error + 'a\<close>.
\<close>

datatype py_error =
  ValueError | KeyError | IndexError | TypeError | ZeroDivisionError | NameError

text \<open>Sequencing: the second computation runs unless the first raised.\<close>

definition bind_err :: "py_error + 'a \<Rightarrow> ('a \<Rightarrow> py_error + 'b) \<Rightarrow> py_error + 'b" where
  "bind_err m f = (case m of Inl e \<Rightarrow> Inl e | Inr x \<Rightarrow> f x)"

section \<open>Button menus\<close>

text \<open>
  \<^verbatim>\<open>range(0, stop, step)\<close> for a positive step, and the slice \<^verbatim>\<open>xs[i:j]\<close> for
  indices that are not negative.
\<close>

definition range_step :: "nat \<Rightarrow> nat \<Rightarrow> nat list" where
  "range_step stop step = map (\<lambda>k. k * step) [0 ..< (stop + step - 1) div step]"

definition slice :: "'a list \<Rightarrow> nat \<Rightarrow> nat \<Rightarrow> 'a list" where
  "slice xs i j = take (j - i) (drop i xs)"

text \<open>
  \<^verbatim>\<open>if header_buttons:\<close> tests the truth value of the argument: \<open>None\<close> (the
  default) and the empty list are both false.
\<close>

fun truthy_row :: "'a list option \<Rightarrow> bool" where
  "truthy_row None = False"
| "truthy_row (Some r) = (r \<noteq> [])"

text \<open>
  The list comprehension of \<^verbatim>\<open>build_menu\<close>. A step of 0 makes \<^verbatim>\<open>range\<close> raise
  ValueError (handled in \<open>build_menu\<close>); a negative step gives the empty range.
\<close>

definition menu_rows :: "'a list \<Rightarrow> int \<Rightarrow> 'a list list" where
  "menu_rows buttons n_cols =
     (if n_cols < 0 then []
      else map (\<lambda>i. slice buttons i (i + nat n_cols))
             (range_step (length buttons) (nat n_cols)))"

definition build_menu ::
  "'a list \<Rightarrow> int \<Rightarrow> 'a list option \<Rightarrow> 'a list option \<Rightarrow> py_error + 'a list list" where
  "build_menu buttons n_cols header_buttons footer_buttons =
     (if n_cols = 0 then Inl ValueError
      else
        let menu = menu_rows buttons n_cols;
            menu = (if truthy_row header_buttons then the header_buttons # menu else menu);
            menu = (if truthy_row footer_buttons then menu @ [the footer_buttons] else menu)
        in Inr menu)"

section \<open>Strings\<close>

text \<open>
  Python's \<^verbatim>\<open>str\<close> is modelled by \<open>string\<close>, one \<open>char\<close> per byte of the UTF-8
  encoding. The source only ever compares, concatenates, splits at ASCII characters and
  changes the case of ASCII keywords, which reads the same on bytes. \<^verbatim>\<open>a in b\<close> on
  strings is \<open>sublist a b\<close>, \<^verbatim>\<open>b.startswith(a)\<close> is \<open>prefix a b\<close> and
  \<^verbatim>\<open>b.endswith(a)\<close> is \<open>suffix a b\<close>.
\<close>

definition upper_char :: "char \<Rightarrow> char" where
  "upper_char c =
     (case map_of (zip ''abcdefghijklmnopqrstuvwxyz'' ''ABCDEFGHIJKLMNOPQRSTUVWXYZ'') c of
        Some u \<Rightarrow> u | None \<Rightarrow> c)"

definition lower_char :: "char \<Rightarrow> char" where
  "lower_char c =
     (case map_of (zip ''ABCDEFGHIJKLMNOPQRSTUVWXYZ'' ''abcdefghijklmnopqrstuvwxyz'') c of
        Some l \<Rightarrow> l | None \<Rightarrow> c)"

definition upper :: "string \<Rightarrow> string" where
  "upper s = map upper_char s"

definition lower :: "string \<Rightarrow> string" where
  "lower s = map lower_char s"

text \<open>\<^verbatim>\<open>s.split(c)\<close> for a separator of one character: never the empty list.\<close>

fun split_on :: "char \<Rightarrow> string \<Rightarrow> string list" where
  "split_on c [] = [[]]"
| "split_on c (x # xs) =
     (if x = c then [] # split_on c xs
      else (case split_on c xs of w # ws \<Rightarrow> (x # w) # ws | [] \<Rightarrow> [[x]]))"

fun join :: "string \<Rightarrow> string list \<Rightarrow> string" where
  "join sep [] = []"
| "join sep [x] = x"
| "join sep (x # y # ys) = x @ sep @ join sep (y # ys)"

definition is_space :: "char \<Rightarrow> bool" where
  "is_space c = (c \<in> set [CHR 0x09, CHR 0x0A, CHR 0x0B, CHR 0x0C, CHR 0x0D,
                           CHR 0x1C, CHR 0x1D, CHR 0x1E, CHR 0x1F, CHR 0x20])"

definition strip :: "string \<Rightarrow> string" where
  "strip s = rev (dropWhile is_space (rev (dropWhile is_space s)))"

text \<open>\<^verbatim>\<open>s.rstrip(c)\<close> for one character \<open>c\<close>.\<close>

definition rstrip :: "char \<Rightarrow> string \<Rightarrow> string" where
  "rstrip c s = rev (dropWhile (\<lambda>x. x = c) (rev s))"

definition isdigit :: "string \<Rightarrow> bool" where
  "isdigit s = (s \<noteq> [] \<and> list_all (\<lambda>c. c \<in> set ''0123456789'') s)"

text \<open>\<^verbatim>\<open>s.replace(".", "")\<close> and \<^verbatim>\<open>s.replace(",", ".")\<close>.\<close>

definition remove_dots :: "string \<Rightarrow> string" where
  "remove_dots s = filter (\<lambda>c. c \<noteq> CHR ''.'') s"

definition comma_to_dot :: "string \<Rightarrow> string" where
  "comma_to_dot s = map (\<lambda>c. if c = CHR '','' then CHR ''.'' else c) s"

subsection \<open>utils.py\<close>

definition emo_er :: string where "emo_er = [CHR 0xE2, CHR 0x80, CHR 0xBC]"
definition emo_wa :: string where "emo_wa = [CHR 0xE2, CHR 0x8F, CHR 0xB3]"
definition emo_fi :: string where "emo_fi = [CHR 0xF0, CHR 0x9F, CHR 0x8F, CHR 0x81]"
definition emo_no :: string where "emo_no = [CHR 0xF0, CHR 0x9F, CHR 0x94, CHR 0x94]"
definition emo_ca :: string where "emo_ca = [CHR 0xE2, CHR 0x9D, CHR 0x8C]"
definition emo_qu :: string where "emo_qu = [CHR 0xE2, CHR 0x9D, CHR 0x93]"

definition bold :: "string \<Rightarrow> string" where
  "bold text = ''*'' @ text @ ''*''"

definition btfy :: "string \<Rightarrow> string" where
  "btfy text =
     emo_er @ '' '' @
     concat (map (\<lambda>c. if c = CHR '':'' then [c, CHR '' ''] else [c]) (strip text))"

section \<open>Floating-point numbers\<close>

text \<open>
  Python's \<^verbatim>\<open>float\<close> is not part of the repository. The handlers are written over
  any type \<open>'f\<close> of numbers with subtraction, multiplication, division, zero and an
  order, and take the conversions between numbers and text as a parameter:
  \<open>float_of_str\<close> is \<^verbatim>\<open>float(s)\<close> (\<open>None\<close> where Python raises ValueError),
  \<open>fmt8\<close> is \<^verbatim>\<open>"{0:.8f}".format(x)\<close> and \<^verbatim>\<open>'%.8f' % x\<close>, \<open>fmt2\<close> is
  \<^verbatim>\<open>"{0:.2f}".format(x)\<close> and \<open>str_of_float\<close> is \<^verbatim>\<open>str(x)\<close>.
\<close>

record 'f float_impl =
  float_of_str :: "string \<Rightarrow> 'f option"
  fmt8 :: "'f \<Rightarrow> string"
  fmt2 :: "'f \<Rightarrow> string"
  str_of_float :: "'f \<Rightarrow> string"

definition pyfloat :: "'f float_impl \<Rightarrow> string \<Rightarrow> py_error + 'f" where
  "pyfloat F s = (case float_of_str F s of None \<Rightarrow> Inl ValueError | Some x \<Rightarrow> Inr x)"

text \<open>
  \<^verbatim>\<open>trim_zeros\<close> on a string (every caller in the handlers below passes one): each
  token of digits and dots is parsed and printed again without trailing zeros. The
  first token that \<^verbatim>\<open>float\<close> rejects raises.
\<close>

definition trim_token :: "'f float_impl \<Rightarrow> string \<Rightarrow> py_error + string" where
  "trim_token F old_str =
     (if isdigit (remove_dots old_str) then
        (case pyfloat F old_str of
           Inl e \<Rightarrow> Inl e
         | Inr x \<Rightarrow> Inr (rstrip (CHR ''.'') (rstrip (CHR ''0'') (fmt8 F x))))
      else Inr old_str)"

fun traverse :: "('a \<Rightarrow> py_error + 'b) \<Rightarrow> 'a list \<Rightarrow> py_error + 'b list" where
  "traverse f [] = Inr []"
| "traverse f (x # xs) =
     (case f x of
        Inl e \<Rightarrow> Inl e
      | Inr y \<Rightarrow> (case traverse f xs of Inl e \<Rightarrow> Inl e | Inr ys \<Rightarrow> Inr (y # ys)))"

definition trim_zeros :: "'f float_impl \<Rightarrow> string \<Rightarrow> py_error + string" where
  "trim_zeros F value_to_trim =
     (case traverse (trim_token F) (split_on (CHR '' '') value_to_trim) of
        Inl e \<Rightarrow> Inl e
      | Inr str_list \<Rightarrow> Inr (join '' '' str_list))"

section \<open>The exchange client (kraken\_api.py)\<close>

text \<open>
  The values the program receives as JSON and keeps in its dictionaries: strings, lists,
  dictionaries (association lists, in insertion order), \<open>None\<close>, booleans, integers.
\<close>

datatype pyval =
  PStr string | PList "pyval list" | PDict "(string \<times> pyval) list" | PNone | PBool bool
  | PInt int

text \<open>
  A response of the exchange is the dictionary \<^verbatim>\<open>{"error": [...], "result": ...}\<close>:
  the list of error strings, and the payload (\<open>None\<close> where the key
  \<^verbatim>\<open>"result"\<close> is absent, as in the dictionaries \<^verbatim>\<open>query\<close> builds itself).
\<close>

record response =
  error :: "string list"
  result :: "pyval option"

text \<open>
  An exception caught by \<^verbatim>\<open>query\<close>: \<^verbatim>\<open>type(ex).__name__\<close> and \<^verbatim>\<open>str(ex)\<close>.
\<close>

datatype exn = Exn (ex_name: string) (ex_str: string)

datatype outcome = Returns response | Raises exn

text \<open>
  The request parameters \<^verbatim>\<open>data\<close> are a dictionary of strings, or \<open>None\<close>.
  \<^verbatim>\<open>krakenex.API.query_private\<close> and \<^verbatim>\<open>query_public\<close> are the network: given the
  method and the data they answer or raise, and change the state \<open>'w\<close> of the world
  outside the program.
\<close>

type_synonym req_data = "(string \<times> string) list option"

type_synonym 'w transport = "string \<Rightarrow> req_data \<Rightarrow> 'w \<Rightarrow> outcome \<times> 'w"

record 'w kraken =
  retries_cfg :: int
  query_private :: "'w transport"
  query_public :: "'w transport"

definition error_response :: "string \<Rightarrow> response" where
  "error_response msg = \<lparr>error = [msg], result = None\<rparr>"

text \<open>
  \<^verbatim>\<open>Kraken.query\<close>. \<^verbatim>\<open>if self._retries:\<close> is true for every integer but 0. The
  argument \<open>retries\<close> is \<open>None\<close> in the call a handler makes.
\<close>

function query ::
  "'w kraken \<Rightarrow> string \<Rightarrow> req_data \<Rightarrow> bool \<Rightarrow> int option \<Rightarrow> 'w \<Rightarrow> response \<times> 'w" where
  "query K method data private retries w =
     (case (if private then query_private K method data w else query_public K method data w) of
        (Returns r, w') \<Rightarrow> (r, w')
      | (Raises ex, w') \<Rightarrow>
          if sublist ''Incorrect padding'' (ex_str ex) then
            (error_response
               ''Incorrect padding: please verify that your Kraken API keys are valid'', w')
          else if sublist ''Service:Unavailable'' (ex_str ex) then
            (error_response ''Service: Unavailable'', w')
          else if retries_cfg K \<noteq> 0 then
            (case retries of
               None \<Rightarrow> query K method data private (Some (retries_cfg K)) w'
             | Some n \<Rightarrow>
                 if n > 0 then query K method data private (Some (n - 1)) w'
                 else (error_response (ex_name ex @ '':'' @ ex_str ex), w'))
          else (error_response (ex_name ex @ '':'' @ ex_str ex), w'))"
  by pat_completeness auto
termination
  by (relation "measure (\<lambda>(K, method, data, private, retries, w).
        case retries of None \<Rightarrow> nat (retries_cfg K) + 2 | Some n \<Rightarrow> nat n + 1)") auto

declare query.simps [simp del]

text \<open>
  A network for counting requests: the world is the number of requests issued so far,
  and the request number \<open>k\<close> (from 0) has the outcome \<open>script k\<close>.
\<close>

definition scripted :: "(nat \<Rightarrow> outcome) \<Rightarrow> nat transport" where
  "scripted script method data k = (script k, Suc k)"

definition scripted_kraken :: "int \<Rightarrow> (nat \<Rightarrow> outcome) \<Rightarrow> nat kraken" where
  "scripted_kraken R script =
     \<lparr>retries_cfg = R, query_private = scripted script, query_public = scripted script\<rparr>"

text \<open>
  The two tests of \<^verbatim>\<open>query\<close> on the text of the exception, before any retry: an
  exception is retryable when neither matches. \<open>last_error\<close> is the dictionary
  \<^verbatim>\<open>{"error": [ex_name + ":" + str(ex)]}\<close>.
\<close>

definition retryable :: "exn \<Rightarrow> bool" where
  "retryable ex =
     (\<not> sublist ''Incorrect padding'' (ex_str ex) \<and>
      \<not> sublist ''Service:Unavailable'' (ex_str ex))"

definition last_error :: "exn \<Rightarrow> response" where
  "last_error ex = error_response (ex_name ex @ '':'' @ ex_str ex)"

section \<open>Reading Python values\<close>

text \<open>
  \<^verbatim>\<open>d[k]\<close> raises KeyError for a missing key and TypeError where \<open>d\<close> is not a
  dictionary. Where the source needs a string (to concatenate it, to split it, to parse
  it as a number) and the value is of another type, the model raises TypeError at that
  point. The truth value of a value is Python's.
\<close>

definition subscript :: "pyval \<Rightarrow> string \<Rightarrow> py_error + pyval" where
  "subscript d k =
     (case d of
        PDict kvs \<Rightarrow> (case map_of kvs k of None \<Rightarrow> Inl KeyError | Some v \<Rightarrow> Inr v)
      | _ \<Rightarrow> Inl TypeError)"

definition get_result :: "response \<Rightarrow> py_error + pyval" where
  "get_result res = (case result res of None \<Rightarrow> Inl KeyError | Some v \<Rightarrow> Inr v)"

definition as_str :: "pyval \<Rightarrow> py_error + string" where
  "as_str v = (case v of PStr s \<Rightarrow> Inr s | _ \<Rightarrow> Inl TypeError)"

definition first_item :: "pyval \<Rightarrow> py_error + pyval" where
  "first_item v =
     (case v of
        PList [] \<Rightarrow> Inl IndexError
      | PList (x # _) \<Rightarrow> Inr x
      | PStr [] \<Rightarrow> Inl IndexError
      | PStr (c # _) \<Rightarrow> Inr (PStr [c])
      | PDict _ \<Rightarrow> Inl KeyError
      | _ \<Rightarrow> Inl TypeError)"

fun truthy :: "pyval \<Rightarrow> bool" where
  "truthy (PStr s) = (s \<noteq> [])"
| "truthy (PList xs) = (xs \<noteq> [])"
| "truthy (PDict kvs) = (kvs \<noteq> [])"
| "truthy PNone = False"
| "truthy (PBool b) = b"
| "truthy (PInt n) = (n \<noteq> 0)"

text \<open>\<^verbatim>\<open>for k in d\<close> and \<^verbatim>\<open>d.items()\<close> for a dictionary \<open>d\<close>.\<close>

definition keys_of :: "pyval \<Rightarrow> py_error + string list" where
  "keys_of d = (case d of PDict kvs \<Rightarrow> Inr (map fst kvs) | _ \<Rightarrow> Inl TypeError)"

definition items_of :: "pyval \<Rightarrow> py_error + (string \<times> pyval) list" where
  "items_of d = (case d of PDict kvs \<Rightarrow> Inr kvs | _ \<Rightarrow> Inl TypeError)"

text \<open>\<^verbatim>\<open>xs[i]\<close> on a list of strings.\<close>

definition item :: "'a list \<Rightarrow> nat \<Rightarrow> py_error + 'a" where
  "item xs i = (if i < length xs then Inr (xs ! i) else Inl IndexError)"

section \<open>The bot (telegram\_kraken\_bot.py)\<close>

text \<open>
  What a handler does besides returning: the messages it sends to the chat
  (\<^verbatim>\<open>update.message.reply_text\<close>) and to the owner (\<^verbatim>\<open>bot.send_message\<close>), the
  warnings and errors it logs, the monitor jobs it registers
  (\<^verbatim>\<open>job_queue.run_repeating\<close>, with the order and the interval) and the removal of the
  running job (\<^verbatim>\<open>job.schedule_removal\<close>). A handler returns the events in the order
  it produced them, also when it raises. Keyboards and the parse mode of a message are
  presentation and are left out.
\<close>

datatype event =
  Reply string | SendMessage string | LogWarning string | LogError string
  | RunRepeating string int | ScheduleRemoval

text \<open>
  A handler returns the next step of the conversation, \<^verbatim>\<open>ConversationHandler.END\<close>,
  or nothing (\<^verbatim>\<open>return\<close>: the conversation stays at its step).
\<close>

datatype WorkflowEnum =
  TRADE_BUY_SELL | TRADE_CURRENCY | TRADE_SELL_ALL_CONFIRM | TRADE_PRICE | TRADE_VOL_TYPE
  | TRADE_VOLUME | TRADE_VOLUME_ASSET | TRADE_CONFIRM | ORDERS_CLOSE | ORDERS_CLOSE_ORDER
  | BOT_SUB_CMD | SETTINGS_CHANGE | SETTINGS_SAVE | SETTINGS_CONFIRM

datatype handler_result = Goto WorkflowEnum | END | ReturnNone

text \<open>The settings of \<^verbatim>\<open>config.json\<close> that the handlers below read.\<close>

record config =
  user_id :: string
  send_error :: bool
  check_trade :: bool
  check_trade_time :: int

definition nl :: string where
  "nl = [CHR 0x0A]"

definition handle_api_error :: "response \<Rightarrow> string \<Rightarrow> bool \<times> event list" where
  "handle_api_error response additional_msg =
     (case error response of
        [] \<Rightarrow> (False, [])
      | e # _ \<Rightarrow>
          (True, [Reply (btfy (additional_msg @ e)), LogError (btfy (additional_msg @ e))]))"

subsection \<open>The order monitor\<close>

text \<open>
  \<^verbatim>\<open>order_state_check\<close>, the callback of the monitor job of the order \<open>order_txid\<close>.
\<close>

definition order_state_check ::
  "'f float_impl \<Rightarrow> 'w kraken \<Rightarrow> config \<Rightarrow> string \<Rightarrow> 'w \<Rightarrow>
     (py_error + unit) \<times> event list \<times> 'w" where
  "order_state_check F K cfg order_txid w =
     (let (res_data, w') = query K ''QueryOrders'' (Some [(''txid'', order_txid)]) True None w
      in case error res_data of
           e # _ \<Rightarrow>
             (Inr (),
              LogError (btfy e) #
              (if send_error cfg
               then [SendMessage (''Order state check:'' @ nl @ emo_er @ '' '' @ btfy e)]
               else []),
              w')
         | [] \<Rightarrow>
             (case get_result res_data of
                Inl err \<Rightarrow> (Inl err, [], w')
              | Inr res \<Rightarrow>
             (case subscript res order_txid of
                Inl err \<Rightarrow> (Inl err, [], w')
              | Inr order_info \<Rightarrow>
             (case subscript order_info ''status'' of
                Inl err \<Rightarrow> (Inl err, [], w')
              | Inr status \<Rightarrow>
                  if status = PStr ''canceled'' then (Inr (), [ScheduleRemoval], w')
                  else if status = PStr ''closed'' then
                    (case subscript order_info ''descr'' of
                       Inl err \<Rightarrow> (Inl err, [], w')
                     | Inr descr \<Rightarrow>
                    (case subscript descr ''order'' of
                       Inl err \<Rightarrow> (Inl err, [], w')
                     | Inr order \<Rightarrow>
                    (case as_str order of
                       Inl err \<Rightarrow> (Inl err, [], w')
                     | Inr order_desc \<Rightarrow>
                    (case trim_zeros F order_desc of
                       Inl err \<Rightarrow> (Inl err, [], w')
                     | Inr desc \<Rightarrow>
                         (Inr (),
                          [SendMessage
                             (bold (emo_no @ '' Trade executed:'' @ nl @ order_txid @ nl @ desc)),
                           ScheduleRemoval],
                          w')))))
                  else (Inr (), [], w')))))"

text \<open>
  What a tick reads from a response without errors:
  \<^verbatim>\<open>res_data["result"][txid]["status"]\<close> and
  \<^verbatim>\<open>res_data["result"][txid]["descr"]["order"]\<close>.
\<close>

definition queried_status :: "response \<Rightarrow> string \<Rightarrow> py_error + pyval" where
  "queried_status res_data order_txid =
     bind_err (get_result res_data) (\<lambda>res.
     bind_err (subscript res order_txid) (\<lambda>order_info. subscript order_info ''status''))"

definition queried_descr :: "response \<Rightarrow> string \<Rightarrow> py_error + string" where
  "queried_descr res_data order_txid =
     bind_err (get_result res_data) (\<lambda>res.
     bind_err (subscript res order_txid) (\<lambda>order_info.
     bind_err (subscript order_info ''descr'') (\<lambda>descr.
     bind_err (subscript descr ''order'') as_str)))"

text \<open>
  The job queue of the chat library runs the callback of a repeating job at every
  interval until the removal of the job is scheduled; an exception of the callback is
  logged by the library and does not remove the job. \<open>run_job\<close> runs the first \<open>n\<close>
  intervals of the job of one order.
\<close>

fun run_job ::
  "'f float_impl \<Rightarrow> 'w kraken \<Rightarrow> config \<Rightarrow> string \<Rightarrow> nat \<Rightarrow> 'w \<Rightarrow> event list \<times> 'w" where
  "run_job F K cfg order_txid 0 w = ([], w)"
| "run_job F K cfg order_txid (Suc n) w =
     (case order_state_check F K cfg order_txid w of
        (r, evs, w') \<Rightarrow>
          if ScheduleRemoval \<in> set evs then (evs, w')
          else (case run_job F K cfg order_txid n w' of (evs', w'') \<Rightarrow> (evs @ evs', w'')))"

subsection \<open>The orders workflow\<close>

text \<open>
  The cached list \<^verbatim>\<open>orders\<close>: \<^verbatim>\<open>orders_cmd\<close> appends one dictionary
  \<^verbatim>\<open>{order_id: order_details}\<close> per open order, so every element has exactly one key
  and is modelled by the pair of the key and its value.

  The loop of \<^verbatim>\<open>orders_close_all\<close> over \<^verbatim>\<open>range(0, len(orders))\<close>:
  \<open>n\<close> is \<^verbatim>\<open>len(orders)\<close>, \<open>x\<close> the index of the first order of the remaining list.
\<close>

fun close_orders ::
  "'w kraken \<Rightarrow> nat \<Rightarrow> nat \<Rightarrow> (string \<times> pyval) list \<Rightarrow> string list \<Rightarrow> 'w \<Rightarrow>
     string list \<times> event list \<times> 'w" where
  "close_orders K n x [] closed_orders w = (closed_orders, [], w)"
| "close_orders K n x ((order_id, details) # rest) closed_orders w =
     (case query K ''CancelOrder'' (Some [(''txid'', order_id)]) True None w of
        (res_data, w') \<Rightarrow>
          (case handle_api_error res_data (''Order not closed:'' @ nl @ order_id @ nl) of
             (True, evs) \<Rightarrow>
               (case close_orders K n (x + 1) rest closed_orders w' of
                  (closed_orders', evs', w'') \<Rightarrow>
                    (closed_orders',
                     evs @
                     (if x + 1 \<noteq> n then [Reply (emo_wa @ '' Closing next order...'')] else []) @
                     evs',
                     w''))
           | (False, evs) \<Rightarrow>
               (case close_orders K n (x + 1) rest (closed_orders @ [order_id]) w' of
                  (closed_orders', evs', w'') \<Rightarrow> (closed_orders', evs @ evs', w''))))"

definition orders_close_all ::
  "'w kraken \<Rightarrow> (string \<times> pyval) list \<Rightarrow> 'w \<Rightarrow> handler_result \<times> event list \<times> 'w" where
  "orders_close_all K orders w =
     (if orders \<noteq> [] then
        (case close_orders K (length orders) 0 orders [] w of
           (closed_orders, evs, w') \<Rightarrow>
             if closed_orders \<noteq> [] then
               (END,
                [Reply (emo_wa @ '' Closing orders...'')] @ evs @
                [Reply (emo_fi @ bold ('' Orders closed:'' @ nl @ join nl closed_orders))],
                w')
             else
               (ReturnNone,
                [Reply (emo_wa @ '' Closing orders...'')] @ evs @
                [Reply (bold ''No orders closed'')],
                w'))
      else
        (END, [Reply (emo_wa @ '' Closing orders...''), Reply (bold ''No open orders'')], w))"

text \<open>
  For the statements about the loop: \<open>cancel_run\<close> makes the \<^verbatim>\<open>CancelOrder\<close> calls
  for a list of orders one after the other, whatever they answer, and returns the
  responses and the world after the last call. \<open>close_report\<close> is what the loop does
  with the response for the order at index \<open>x\<close> of \<open>n\<close>, and \<open>closed_ids\<close> are the
  orders whose response has no error.
\<close>

fun cancel_run :: "'w kraken \<Rightarrow> string list \<Rightarrow> 'w \<Rightarrow> response list \<times> 'w" where
  "cancel_run K [] w = ([], w)"
| "cancel_run K (order_id # rest) w =
     (case query K ''CancelOrder'' (Some [(''txid'', order_id)]) True None w of
        (res_data, w') \<Rightarrow> (case cancel_run K rest w' of (rs, w'') \<Rightarrow> (res_data # rs, w'')))"

definition close_report :: "nat \<Rightarrow> nat \<times> string \<times> response \<Rightarrow> event list" where
  "close_report n = (\<lambda>(x, order_id, res_data).
     case error res_data of
       [] \<Rightarrow> []
     | e # _ \<Rightarrow>
         [Reply (btfy (''Order not closed:'' @ nl @ order_id @ nl @ e)),
          LogError (btfy (''Order not closed:'' @ nl @ order_id @ nl @ e))] @
         (if x + 1 \<noteq> n then [Reply (emo_wa @ '' Closing next order...'')] else []))"

definition closed_ids :: "(string \<times> response) list \<Rightarrow> string list" where
  "closed_ids irs = map fst (filter (\<lambda>(order_id, res_data). error res_data = []) irs)"

subsection \<open>Cancelling a conversation\<close>

text \<open>
  \<^verbatim>\<open>chat_data\<close> is the dictionary of the session's scratch values. A handler gets it
  only when it is registered with \<^verbatim>\<open>pass_chat_data=True\<close>; \<^verbatim>\<open>cancel\<close> has the
  default \<^verbatim>\<open>chat_data=None\<close>. \<^verbatim>\<open>clear_chat_data\<close> changes the dictionary in place:
  the model returns the dictionary as the call leaves it.
\<close>

type_synonym chat_data = "(string \<times> pyval) list"

definition clear_chat_data :: "chat_data option \<Rightarrow> chat_data option" where
  "clear_chat_data chat_data =
     (case chat_data of
        None \<Rightarrow> None
      | Some d \<Rightarrow> if d \<noteq> [] then Some (fold AList.delete (map fst d) d) else Some d)"

definition cancel :: "chat_data option \<Rightarrow> handler_result \<times> event list \<times> chat_data option" where
  "cancel chat_data = (END, [Reply (emo_ca @ '' Canceled...'')], clear_chat_data chat_data)"

subsection \<open>The trade workflow: selling everything\<close>

text \<open>
  The cached tables: \<open>assets\<close> maps an asset to its \<^verbatim>\<open>altname\<close> (the one field the
  handlers read), \<open>pairs\<close> maps a coin to its trading pair, \<open>limits\<close> maps a coin
  to its minimum order size, as text.
\<close>

record tables =
  assets :: "(string \<times> string) list"
  pairs :: "(string \<times> string) list"
  limits :: "(string \<times> string) list"

text \<open>
  The first loop of \<^verbatim>\<open>trade_sell_all_confirm\<close>, over the open orders. The result
  \<open>True\<close> says that the loop ran to its end, \<open>False\<close> that the handler returned from
  inside the loop.
\<close>

fun cancel_open_orders :: "'w kraken \<Rightarrow> string list \<Rightarrow> 'w \<Rightarrow> bool \<times> event list \<times> 'w" where
  "cancel_open_orders K [] w = (True, [], w)"
| "cancel_open_orders K (order # rest) w =
     (case query K ''CancelOrder'' (Some [(''txid'', order)]) True None w of
        (res, w') \<Rightarrow>
          (case handle_api_error res (''Not possible to close order'' @ nl @ order @ nl) of
             (True, evs) \<Rightarrow> (False, evs, w')
           | (False, evs) \<Rightarrow>
               (case cancel_open_orders K rest w' of
                  (done, evs', w'') \<Rightarrow> (done, evs @ evs', w''))))"

text \<open>The second loop, over the items of the balance.\<close>

fun sell_assets ::
  "'f::ord float_impl \<Rightarrow> 'w kraken \<Rightarrow> config \<Rightarrow> tables \<Rightarrow> (string \<times> pyval) list \<Rightarrow> 'w \<Rightarrow>
     (py_error + unit) \<times> event list \<times> 'w" where
  "sell_assets F K cfg T [] w = (Inr (), [], w)"
| "sell_assets F K cfg T ((balance_asset, amount) # rest) w =
     (if prefix ''Z'' balance_asset then sell_assets F K cfg T rest w
      else if amount = PStr ''0.0000000000'' then sell_assets F K cfg T rest w
      else
        (case map_of (assets T) balance_asset of
           None \<Rightarrow> (Inl KeyError, [], w)
         | Some altname \<Rightarrow>
        (case map_of (limits T) altname of
           None \<Rightarrow>
             (case sell_assets F K cfg T rest w of
                (r, evs, w') \<Rightarrow>
                  (r, LogWarning (''No minimum order limit in config for coin '' @ altname) # evs,
                   w'))
         | Some limit \<Rightarrow>
        (case as_str amount of
           Inl err \<Rightarrow> (Inl err, [], w)
         | Inr volume \<Rightarrow>
        (case pyfloat F volume of
           Inl err \<Rightarrow> (Inl err, [], w)
         | Inr a \<Rightarrow>
        (case pyfloat F limit of
           Inl err \<Rightarrow> (Inl err, [], w)
         | Inr l \<Rightarrow>
             if a < l then
               (case sell_assets F K cfg T rest w of
                  (r, evs, w') \<Rightarrow>
                    (r,
                     [Reply (emo_er @ '' Volume to low. Must be > '' @ limit @ nl @
                             emo_wa @ '' Selling next asset...''),
                      LogWarning (emo_er @ '' Volume to low. Must be > '' @ limit)] @ evs,
                     w'))
             else
               (case map_of (pairs T) altname of
                  None \<Rightarrow> (Inl KeyError, [], w)
                | Some pair \<Rightarrow>
               (case query K ''AddOrder''
                       (Some [(''type'', ''sell''), (''trading_agreement'', ''agree''),
                              (''pair'', pair), (''ordertype'', ''market''),
                              (''volume'', volume)])
                       True None w of
                  (res_add_order, w') \<Rightarrow>
               (case handle_api_error res_add_order [] of
                  (True, evs0) \<Rightarrow>
                    (case sell_assets F K cfg T rest w' of
                       (r, evs, w'') \<Rightarrow> (r, evs0 @ evs, w''))
                | (False, evs0) \<Rightarrow>
               (case get_result res_add_order of
                  Inl err \<Rightarrow> (Inl err, evs0, w')
                | Inr res \<Rightarrow>
               (case subscript res ''txid'' of
                  Inl err \<Rightarrow> (Inl err, evs0, w')
                | Inr txids \<Rightarrow>
               (case first_item txids of
                  Inl err \<Rightarrow> (Inl err, evs0, w')
                | Inr txid0 \<Rightarrow>
               (case as_str txid0 of
                  Inl err \<Rightarrow> (Inl err, evs0, w')
                | Inr order_txid \<Rightarrow>
                    (case sell_assets F K cfg T rest w' of
                       (r, evs, w'') \<Rightarrow>
                         (r,
                          evs0 @
                          (if check_trade cfg
                           then [RunRepeating order_txid (check_trade_time cfg)] else []) @
                          evs,
                          w'')))))))))))))))"

definition trade_sell_all_confirm ::
  "'f::ord float_impl \<Rightarrow> 'w kraken \<Rightarrow> config \<Rightarrow> tables \<Rightarrow> string \<Rightarrow> 'w \<Rightarrow>
     (py_error + handler_result) \<times> event list \<times> 'w" where
  "trade_sell_all_confirm F K cfg T text w =
     (if upper text = ''NO'' then
        (case cancel None of (r, evs, cd) \<Rightarrow> (Inr r, evs, w))
      else
        (case query K ''OpenOrders'' None True None w of
           (res_open_orders, w1) \<Rightarrow>
        (case handle_api_error res_open_orders [] of
           (True, evs1) \<Rightarrow>
             (Inr ReturnNone, Reply (emo_wa @ '' Preparing to sell everything...'') # evs1, w1)
         | (False, evs1) \<Rightarrow>
        (case get_result res_open_orders of
           Inl err \<Rightarrow> (Inl err, [Reply (emo_wa @ '' Preparing to sell everything...'')], w1)
         | Inr res \<Rightarrow>
        (case subscript res ''open'' of
           Inl err \<Rightarrow> (Inl err, [Reply (emo_wa @ '' Preparing to sell everything...'')], w1)
         | Inr open_orders \<Rightarrow>
        (case (if truthy open_orders then keys_of open_orders else Inr []) of
           Inl err \<Rightarrow> (Inl err, [Reply (emo_wa @ '' Preparing to sell everything...'')], w1)
         | Inr txids \<Rightarrow>
        (case cancel_open_orders K txids w1 of
           (False, evs2, w2) \<Rightarrow>
             (Inr ReturnNone, Reply (emo_wa @ '' Preparing to sell everything...'') # evs2, w2)
         | (True, evs2, w2) \<Rightarrow>
        (case query K ''Balance'' None True None w2 of
           (res_balance, w3) \<Rightarrow>
        (case handle_api_error res_balance [] of
           (True, evs3) \<Rightarrow>
             (Inr ReturnNone,
              Reply (emo_wa @ '' Preparing to sell everything...'') # evs2 @ evs3, w3)
         | (False, evs3) \<Rightarrow>
        (case get_result res_balance of
           Inl err \<Rightarrow>
             (Inl err, Reply (emo_wa @ '' Preparing to sell everything...'') # evs2, w3)
         | Inr balance \<Rightarrow>
        (case items_of balance of
           Inl err \<Rightarrow>
             (Inl err, Reply (emo_wa @ '' Preparing to sell everything...'') # evs2, w3)
         | Inr items \<Rightarrow>
        (case sell_assets F K cfg T items w3 of
           (Inl err, evs4, w4) \<Rightarrow>
             (Inl err, Reply (emo_wa @ '' Preparing to sell everything...'') # evs2 @ evs4, w4)
         | (Inr u, evs4, w4) \<Rightarrow>
             (Inr END,
              Reply (emo_wa @ '' Preparing to sell everything...'') # evs2 @ evs4 @
              [Reply (bold (emo_fi @ '' Created orders to sell all assets''))],
              w4)))))))))))))"

text \<open>
  The conversation handler of the trade workflow calls the handler of the entry that
  matches the message. An entry with \<^verbatim>\<open>pass_chat_data=True\<close> hands the dictionary of
  the chat to its handler; a handler of any other entry cannot reach it.
  \<open>sell_all_confirm_step\<close> is the step for the state \<^verbatim>\<open>TRADE_SELL_ALL_CONFIRM\<close>, whose
  one entry is \<^verbatim>\<open>RegexHandler(comp("^(YES|NO)$"), trade_sell_all_confirm)\<close>;
  \<open>cancel_step\<close> is the step of an entry
  \<^verbatim>\<open>RegexHandler(comp("^(CANCEL)$"), cancel, pass_chat_data=True)\<close>. Both return the
  dictionary of the chat as the step leaves it.
\<close>

definition sell_all_confirm_step ::
  "'f::ord float_impl \<Rightarrow> 'w kraken \<Rightarrow> config \<Rightarrow> tables \<Rightarrow> string \<Rightarrow> chat_data \<Rightarrow> 'w \<Rightarrow>
     (py_error + handler_result) \<times> event list \<times> chat_data \<times> 'w" where
  "sell_all_confirm_step F K cfg T text chat_data w =
     (case trade_sell_all_confirm F K cfg T text w of
        (r, evs, w') \<Rightarrow> (r, evs, chat_data, w'))"

definition cancel_step :: "chat_data \<Rightarrow> handler_result \<times> event list \<times> chat_data" where
  "cancel_step chat_data =
     (case cancel (Some chat_data) of
        (r, evs, Some d) \<Rightarrow> (r, evs, d)
      | (r, evs, None) \<Rightarrow> (r, evs, chat_data))"

subsection \<open>The trade workflow: entering the volume\<close>

text \<open>
  \<^verbatim>\<open>chat_data[k]\<close>, and \<^verbatim>\<open>table[v]\<close> for a cached table with string keys and a key
  \<open>v\<close> read from a dictionary: a list or a dictionary cannot be a key (TypeError),
  any other value that is not a string is not in the table (KeyError).
\<close>

definition cd_get :: "chat_data \<Rightarrow> string \<Rightarrow> py_error + pyval" where
  "cd_get chat_data k = (case map_of chat_data k of None \<Rightarrow> Inl KeyError | Some v \<Rightarrow> Inr v)"

definition cd_str :: "chat_data \<Rightarrow> string \<Rightarrow> py_error + string" where
  "cd_str chat_data k = bind_err (cd_get chat_data k) as_str"

definition lookup :: "(string \<times> 'a) list \<Rightarrow> pyval \<Rightarrow> py_error + 'a" where
  "lookup table v =
     (case v of
        PStr k \<Rightarrow> (case map_of table k of None \<Rightarrow> Inl KeyError | Some x \<Rightarrow> Inr x)
      | PList _ \<Rightarrow> Inl TypeError
      | PDict _ \<Rightarrow> Inl TypeError
      | _ \<Rightarrow> Inl KeyError)"

text \<open>\<^verbatim>\<open>d[v]\<close> for a received value \<open>d\<close> and a key \<open>v\<close> read from a dictionary.\<close>

definition subscript_val :: "pyval \<Rightarrow> pyval \<Rightarrow> py_error + pyval" where
  "subscript_val d v = (case d of PDict kvs \<Rightarrow> lookup kvs v | _ \<Rightarrow> Inl TypeError)"

definition approx :: string where
  "approx = [CHR 0xE2, CHR 0x89, CHR 0x88]"

text \<open>
  The text of the confirmation that \<^verbatim>\<open>trade_show_conf\<close> builds, from
  \<^verbatim>\<open>trade_str\<close> to \<^verbatim>\<open>reply_msg\<close>, for the chat data as it is after the price of a
  market order has been stored.
\<close>

definition conf_text ::
  "'f::times float_impl \<Rightarrow> chat_data \<Rightarrow> string \<Rightarrow> bool \<Rightarrow> py_error + string" where
  "conf_text F chat_data asset_two market =
     bind_err (cd_str chat_data ''buysell'') (\<lambda>buysell.
     bind_err (cd_str chat_data ''volume'') (\<lambda>volume.
     bind_err (trim_zeros F volume) (\<lambda>volume_trimmed.
     bind_err (cd_str chat_data ''currency'') (\<lambda>currency.
     bind_err (cd_str chat_data ''price'') (\<lambda>price.
     bind_err (trim_zeros F price) (\<lambda>price_trimmed.
     bind_err (cd_str chat_data ''two'') (\<lambda>two.
     bind_err (pyfloat F volume) (\<lambda>v.
     bind_err (pyfloat F price) (\<lambda>p.
     bind_err (trim_zeros F (if prefix ''Z'' two then fmt2 F (v * p) else fmt8 F (v * p)))
       (\<lambda>total_value.
          Inr ('' Place this order?'' @ nl @
               lower buysell @ '' '' @ volume_trimmed @ '' '' @ currency @
               (if market then '' @ market price '' @ approx else '' @ limit '') @
               price_trimmed @ '' '' @ asset_two @ nl @
               (if market then ''(Value: '' @ approx else ''(Value: '') @
               total_value @ '' '' @ asset_two @ '')'')))))))))))"

definition trade_show_conf ::
  "'f::times float_impl \<Rightarrow> 'w kraken \<Rightarrow> tables \<Rightarrow> chat_data \<Rightarrow> 'w \<Rightarrow>
     (py_error + unit) \<times> event list \<times> chat_data \<times> 'w" where
  "trade_show_conf F K T chat_data w =
     (case bind_err (cd_get chat_data ''two'') (lookup (assets T)) of
        Inl err \<Rightarrow> (Inl err, [], chat_data, w)
      | Inr asset_two \<Rightarrow>
     (case cd_get chat_data ''market_price'' of
        Inl err \<Rightarrow> (Inl err, [], chat_data, w)
      | Inr market_price \<Rightarrow>
          if truthy market_price then
            (case bind_err (cd_get chat_data ''currency'') (lookup (pairs T)) of
               Inl err \<Rightarrow>
                 (Inl err, [Reply (emo_wa @ '' Retrieving estimated price...'')], chat_data, w)
             | Inr pair \<Rightarrow>
            (case query K ''Ticker'' (Some [(''pair'', pair)]) False None w of
               (res_data, w') \<Rightarrow>
            (case handle_api_error res_data [] of
               (True, evs) \<Rightarrow>
                 (Inr (), Reply (emo_wa @ '' Retrieving estimated price...'') # evs, chat_data, w')
             | (False, evs) \<Rightarrow>
            (case bind_err (get_result res_data) (\<lambda>res.
                  bind_err (subscript res pair) (\<lambda>ticker.
                  bind_err (subscript ticker ''c'') first_item)) of
               Inl err \<Rightarrow>
                 (Inl err, [Reply (emo_wa @ '' Retrieving estimated price...'')], chat_data, w')
             | Inr price \<Rightarrow>
            (case conf_text F (AList.update ''price'' price chat_data) asset_two True of
               Inl err \<Rightarrow>
                 (Inl err, [Reply (emo_wa @ '' Retrieving estimated price...'')],
                  AList.update ''price'' price chat_data, w')
             | Inr reply_msg \<Rightarrow>
                 (Inr (),
                  [Reply (emo_wa @ '' Retrieving estimated price...''),
                   Reply (emo_qu @ reply_msg)],
                  AList.update ''price'' price chat_data, w'))))))
          else
            (case conf_text F chat_data asset_two False of
               Inl err \<Rightarrow> (Inl err, [], chat_data, w)
             | Inr reply_msg \<Rightarrow> (Inr (), [Reply (emo_qu @ reply_msg)], chat_data, w))))"

text \<open>
  The check of the minimum order size and the confirmation, the common end of
  \<^verbatim>\<open>trade_volume\<close> and \<^verbatim>\<open>trade_volume_asset\<close>: the two handlers have the same
  lines from \<^verbatim>\<open>if chat_data["currency"] in limits:\<close> on.
\<close>

definition check_limit_and_confirm ::
  "'f::{ord,times} float_impl \<Rightarrow> 'w kraken \<Rightarrow> tables \<Rightarrow> chat_data \<Rightarrow> 'w \<Rightarrow>
     (py_error + handler_result) \<times> event list \<times> chat_data \<times> 'w" where
  "check_limit_and_confirm F K T chat_data w =
     (case cd_str chat_data ''currency'' of
        Inl err \<Rightarrow> (Inl err, [], chat_data, w)
      | Inr currency \<Rightarrow>
     (case map_of (limits T) currency of
        Some limit \<Rightarrow>
          (case bind_err (cd_str chat_data ''volume'') (pyfloat F) of
             Inl err \<Rightarrow> (Inl err, [], chat_data, w)
           | Inr v \<Rightarrow>
          (case pyfloat F limit of
             Inl err \<Rightarrow> (Inl err, [], chat_data, w)
           | Inr l \<Rightarrow>
               if v < l then
                 (Inr (Goto TRADE_VOLUME),
                  [Reply (emo_er @ '' Volume to low. Must be > '' @ limit),
                   LogWarning (emo_er @ '' Volume to low. Must be > '' @ limit),
                   Reply ''Enter new volume''],
                  chat_data, w)
               else
                 (case trade_show_conf F K T chat_data w of
                    (Inl err, evs, chat_data', w') \<Rightarrow> (Inl err, evs, chat_data', w')
                  | (Inr u, evs, chat_data', w') \<Rightarrow>
                      (Inr (Goto TRADE_CONFIRM), evs, chat_data', w'))))
      | None \<Rightarrow>
          (case trade_show_conf F K T chat_data w of
             (Inl err, evs, chat_data', w') \<Rightarrow>
               (Inl err,
                LogWarning (''No minimum order limit in config for coin '' @ currency) # evs,
                chat_data', w')
           | (Inr u, evs, chat_data', w') \<Rightarrow>
               (Inr (Goto TRADE_CONFIRM),
                LogWarning (''No minimum order limit in config for coin '' @ currency) # evs,
                chat_data', w'))))"

definition trade_volume ::
  "'f::{ord,times} float_impl \<Rightarrow> 'w kraken \<Rightarrow> tables \<Rightarrow> string \<Rightarrow> chat_data \<Rightarrow> 'w \<Rightarrow>
     (py_error + handler_result) \<times> event list \<times> chat_data \<times> 'w" where
  "trade_volume F K T text chat_data w =
     (case pyfloat F (comma_to_dot text) of
        Inl err \<Rightarrow> (Inl err, [], chat_data, w)
      | Inr x \<Rightarrow>
          check_limit_and_confirm F K T (AList.update ''volume'' (PStr (fmt8 F x)) chat_data) w)"

definition trade_volume_asset ::
  "'f::{ord,times,inverse,zero} float_impl \<Rightarrow> 'w kraken \<Rightarrow> tables \<Rightarrow> string \<Rightarrow> chat_data \<Rightarrow>
     'w \<Rightarrow> (py_error + handler_result) \<times> event list \<times> chat_data \<times> 'w" where
  "trade_volume_asset F K T text chat_data w =
     (case pyfloat F (comma_to_dot text) of
        Inl err \<Rightarrow> (Inl err, [], chat_data, w)
      | Inr amount \<Rightarrow>
     (case bind_err (cd_str chat_data ''price'') (pyfloat F) of
        Inl err \<Rightarrow> (Inl err, [], chat_data, w)
      | Inr price_per_unit \<Rightarrow>
          if price_per_unit = 0 then (Inl ZeroDivisionError, [], chat_data, w)
          else
            check_limit_and_confirm F K T
              (AList.update ''volume'' (PStr (fmt8 F (amount / price_per_unit))) chat_data) w))"

subsection \<open>The trade workflow: all available funds\<close>

text \<open>
  \<^verbatim>\<open>res_orders["result"]["open"][order]["descr"]["order"].split(" ")\<close>, the description
  of an open order as a list of words.
\<close>

definition order_desc_list :: "pyval \<Rightarrow> string \<Rightarrow> py_error + string list" where
  "order_desc_list open_orders order =
     bind_err (subscript open_orders order) (\<lambda>details.
     bind_err (subscript details ''descr'') (\<lambda>descr.
     bind_err (subscript descr ''order'') (\<lambda>order_desc.
     bind_err (as_str order_desc) (\<lambda>desc. Inr (split_on (CHR '' '') desc)))))"

text \<open>
  The loop of the BUY branch over the open orders: the value of every open buy order
  is subtracted from the available amount of the currency to buy from.
\<close>

fun buy_orders_loop ::
  "'f::{minus,times} float_impl \<Rightarrow> pyval \<Rightarrow> string list \<Rightarrow> 'f \<Rightarrow> py_error + 'f" where
  "buy_orders_loop F open_orders [] avail_buy_from_cur = Inr avail_buy_from_cur"
| "buy_orders_loop F open_orders (order # rest) avail_buy_from_cur =
     (case order_desc_list open_orders order of
        Inl err \<Rightarrow> Inl err
      | Inr desc_list \<Rightarrow>
     (case bind_err (item desc_list 5) (trim_zeros F) of
        Inl err \<Rightarrow> Inl err
      | Inr coin_price \<Rightarrow>
     (case item desc_list 1 of
        Inl err \<Rightarrow> Inl err
      | Inr order_volume \<Rightarrow>
     (case item desc_list 0 of
        Inl err \<Rightarrow> Inl err
      | Inr order_type \<Rightarrow>
          if order_type = ''buy'' then
            (case pyfloat F order_volume of
               Inl err \<Rightarrow> Inl err
             | Inr v \<Rightarrow>
            (case pyfloat F coin_price of
               Inl err \<Rightarrow> Inl err
             | Inr p \<Rightarrow> buy_orders_loop F open_orders rest (avail_buy_from_cur - v * p)))
          else buy_orders_loop F open_orders rest avail_buy_from_cur))))"

text \<open>
  The inner loop of the SELL branch over the assets: the first asset whose altname ends
  the pair of the order sets \<^verbatim>\<open>order_currency\<close> to the rest of the pair. The variable
  keeps its value from the order before when no asset matches, and is unbound
  (\<open>None\<close>) before the first match. \<^verbatim>\<open>s[:-n]\<close> is empty for \<open>n = 0\<close>.
\<close>

fun find_order_currency ::
  "(string \<times> string) list \<Rightarrow> string list \<Rightarrow> string option \<Rightarrow> py_error + string option" where
  "find_order_currency [] desc_list order_currency = Inr order_currency"
| "find_order_currency ((asset, altname) # rest) desc_list order_currency =
     (case item desc_list 2 of
        Inl err \<Rightarrow> Inl err
      | Inr pair \<Rightarrow>
          if suffix altname pair then
            Inr (Some (if length altname = 0 then []
                       else take (length pair - length altname) pair))
          else find_order_currency rest desc_list order_currency)"

text \<open>
  The loop of the SELL branch over the open orders: the volume of every open sell order
  of the currency is subtracted from the available volume, which is kept as text.
\<close>

fun sell_orders_loop ::
  "'f::minus float_impl \<Rightarrow> tables \<Rightarrow> chat_data \<Rightarrow> pyval \<Rightarrow> string list \<Rightarrow> string option \<Rightarrow>
     pyval \<Rightarrow> py_error + pyval" where
  "sell_orders_loop F T chat_data open_orders [] order_currency available_volume =
     Inr available_volume"
| "sell_orders_loop F T chat_data open_orders (order # rest) order_currency available_volume =
     (case order_desc_list open_orders order of
        Inl err \<Rightarrow> Inl err
      | Inr desc_list \<Rightarrow>
     (case find_order_currency (assets T) desc_list order_currency of
        Inl err \<Rightarrow> Inl err
      | Inr order_currency' \<Rightarrow>
     (case item desc_list 1 of
        Inl err \<Rightarrow> Inl err
      | Inr order_volume \<Rightarrow>
     (case item desc_list 0 of
        Inl err \<Rightarrow> Inl err
      | Inr order_type \<Rightarrow>
     (case cd_get chat_data ''currency'' of
        Inl err \<Rightarrow> Inl err
      | Inr currency \<Rightarrow>
     (case order_currency' of
        None \<Rightarrow> Inl NameError
      | Some cur \<Rightarrow>
     (case as_str currency of
        Inl err \<Rightarrow> Inl err
      | Inr c \<Rightarrow>
          if sublist c cur \<and> order_type = ''sell'' then
            (case bind_err (as_str available_volume) (pyfloat F) of
               Inl err \<Rightarrow> Inl err
             | Inr a \<Rightarrow>
            (case pyfloat F order_volume of
               Inl err \<Rightarrow> Inl err
             | Inr v \<Rightarrow>
                 sell_orders_loop F T chat_data open_orders rest order_currency'
                   (PStr (str_of_float F (a - v)))))
          else
            sell_orders_loop F T chat_data open_orders rest order_currency'
              available_volume)))))))"

text \<open>\<^verbatim>\<open>res_orders["result"]["open"]\<close> and the orders the loops run over.\<close>

definition open_orders_of :: "response \<Rightarrow> py_error + pyval \<times> string list" where
  "open_orders_of res_orders =
     bind_err (get_result res_orders) (\<lambda>res.
     bind_err (subscript res ''open'') (\<lambda>open_orders.
       if truthy open_orders
       then bind_err (keys_of open_orders) (\<lambda>ks. Inr (open_orders, ks))
       else Inr (open_orders, [])))"

text \<open>
  The volume the BUY branch resolves, as a number: the available amount of the
  currency to buy from, less the open buy orders, divided by the price.
\<close>

definition buy_volume ::
  "'f::{minus,times,inverse,zero} float_impl \<Rightarrow> chat_data \<Rightarrow> response \<Rightarrow> response \<Rightarrow>
     py_error + 'f" where
  "buy_volume F chat_data res_balance res_orders =
     bind_err (get_result res_balance) (\<lambda>balance.
     bind_err (cd_get chat_data ''two'') (\<lambda>two.
     bind_err (subscript_val balance two) (\<lambda>amount.
     bind_err (bind_err (as_str amount) (pyfloat F)) (\<lambda>avail.
     bind_err (open_orders_of res_orders) (\<lambda>(open_orders, ks).
     bind_err (buy_orders_loop F open_orders ks avail) (\<lambda>avail'.
     bind_err (bind_err (cd_str chat_data ''price'') (pyfloat F)) (\<lambda>price.
       if price = 0 then Inl ZeroDivisionError else Inr (avail' / price))))))))"

text \<open>The available volume the SELL branch resolves, as a number.\<close>

definition sell_volume ::
  "'f::minus float_impl \<Rightarrow> tables \<Rightarrow> chat_data \<Rightarrow> response \<Rightarrow> response \<Rightarrow> py_error + 'f" where
  "sell_volume F T chat_data res_balance res_orders =
     bind_err (get_result res_balance) (\<lambda>balance.
     bind_err (cd_get chat_data ''one'') (\<lambda>one.
     bind_err (subscript_val balance one) (\<lambda>available_volume.
     bind_err (open_orders_of res_orders) (\<lambda>(open_orders, ks).
     bind_err (sell_orders_loop F T chat_data open_orders ks None available_volume) (\<lambda>available.
     bind_err (as_str available) (pyfloat F))))))"

definition trade_vol_all ::
  "'f::{ord,minus,times,inverse,zero} float_impl \<Rightarrow> 'w kraken \<Rightarrow> tables \<Rightarrow> chat_data \<Rightarrow> 'w \<Rightarrow>
     (py_error + handler_result) \<times> event list \<times> chat_data \<times> 'w" where
  "trade_vol_all F K T chat_data w =
     (case query K ''Balance'' None True None w of
        (res_balance, w1) \<Rightarrow>
     (case handle_api_error res_balance [] of
        (True, evs) \<Rightarrow>
          (Inr ReturnNone, Reply (emo_wa @ '' Calculating volume...'') # evs, chat_data, w1)
      | (False, evs) \<Rightarrow>
     (case query K ''OpenOrders'' None True None w1 of
        (res_orders, w2) \<Rightarrow>
     (case handle_api_error res_orders [] of
        (True, evs) \<Rightarrow>
          (Inr ReturnNone, Reply (emo_wa @ '' Calculating volume...'') # evs, chat_data, w2)
      | (False, evs) \<Rightarrow>
     (case cd_str chat_data ''buysell'' of
        Inl err \<Rightarrow> (Inl err, [Reply (emo_wa @ '' Calculating volume...'')], chat_data, w2)
      | Inr buysell \<Rightarrow>
          if upper buysell = ''BUY'' then
            (case buy_volume F chat_data res_balance res_orders of
               Inl err \<Rightarrow>
                 (Inl err, [Reply (emo_wa @ '' Calculating volume...'')], chat_data, w2)
             | Inr volume \<Rightarrow>
                 if fmt8 F volume = ''0.00000000'' then
                   (case bind_err (cd_get chat_data ''two'') (lookup (assets T)) of
                      Inl err \<Rightarrow>
                        (Inl err, [Reply (emo_wa @ '' Calculating volume...'')],
                         AList.update ''volume'' (PStr (fmt8 F volume)) chat_data, w2)
                    | Inr altname \<Rightarrow>
                        (Inr END,
                         [Reply (emo_wa @ '' Calculating volume...''),
                          Reply (emo_er @ '' Available '' @ altname @ '' volume is 0'')],
                         AList.update ''volume'' (PStr (fmt8 F volume)) chat_data, w2))
                 else
                   (case trade_show_conf F K T
                           (AList.update ''volume'' (PStr (fmt8 F volume)) chat_data) w2 of
                      (Inl err, evs', chat_data', w3) \<Rightarrow>
                        (Inl err, Reply (emo_wa @ '' Calculating volume...'') # evs',
                         chat_data', w3)
                    | (Inr u, evs', chat_data', w3) \<Rightarrow>
                        (Inr (Goto TRADE_CONFIRM),
                         Reply (emo_wa @ '' Calculating volume...'') # evs', chat_data', w3)))
          else if upper buysell = ''SELL'' then
            (case sell_volume F T chat_data res_balance res_orders of
               Inl err \<Rightarrow>
                 (Inl err, [Reply (emo_wa @ '' Calculating volume...'')], chat_data, w2)
             | Inr volume \<Rightarrow>
                 if fmt8 F volume = ''0.00000000'' then
                   (case cd_str chat_data ''currency'' of
                      Inl err \<Rightarrow>
                        (Inl err, [Reply (emo_wa @ '' Calculating volume...'')],
                         AList.update ''volume'' (PStr (fmt8 F volume)) chat_data, w2)
                    | Inr currency \<Rightarrow>
                        (Inr END,
                         [Reply (emo_wa @ '' Calculating volume...''),
                          Reply (emo_er @ '' Available '' @ currency @ '' volume is 0'')],
                         AList.update ''volume'' (PStr (fmt8 F volume)) chat_data, w2))
                 else
                   (case trade_show_conf F K T
                           (AList.update ''volume'' (PStr (fmt8 F volume)) chat_data) w2 of
                      (Inl err, evs', chat_data', w3) \<Rightarrow>
                        (Inl err, Reply (emo_wa @ '' Calculating volume...'') # evs',
                         chat_data', w3)
                    | (Inr u, evs', chat_data', w3) \<Rightarrow>
                        (Inr (Goto TRADE_CONFIRM),
                         Reply (emo_wa @ '' Calculating volume...'') # evs', chat_data', w3)))
          else
            (Inr (Goto TRADE_CONFIRM), [Reply (emo_wa @ '' Calculating volume...'')],
             chat_data, w2))))))"

text \<open>
  A property of the formatting of numbers, which Python's has: the text of a negative
  number starts with the minus sign (also where all its printed digits are 0).
\<close>

definition signed_fmt8 :: "'f::{ord,zero} float_impl \<Rightarrow> bool" where
  "signed_fmt8 F = (\<forall>x. x < 0 \<longrightarrow> prefix ''-'' (fmt8 F x))"

section \<open>A decimal implementation of the numbers\<close>

text \<open>
  An executable instance of \<open>float_impl\<close> on the rationals, to run the handlers on
  concrete inputs: it reads plain decimal numerals, computes exactly, and prints with
  the given number of fractional digits, rounding half to even, with the sign of a
  negative number in front.
\<close>

definition digit_of :: "char \<Rightarrow> int option" where
  "digit_of c = map_of (zip ''0123456789'' [0, 1, 2, 3, 4, 5, 6, 7, 8, 9]) c"

definition digits_value :: "string \<Rightarrow> int" where
  "digits_value ds = foldl (\<lambda>a c. 10 * a + (case digit_of c of Some d \<Rightarrow> d | None \<Rightarrow> 0)) 0 ds"

definition parse_unsigned :: "string \<Rightarrow> rat option" where
  "parse_unsigned s =
     (let ip = takeWhile (\<lambda>c. c \<noteq> CHR ''.'') s;
          fp = drop 1 (dropWhile (\<lambda>c. c \<noteq> CHR ''.'') s)
      in if isdigit (ip @ fp) then Some (of_int (digits_value (ip @ fp)) / 10 ^ length fp)
         else None)"

definition dec_of_str :: "string \<Rightarrow> rat option" where
  "dec_of_str s =
     (case s of
        [] \<Rightarrow> None
      | c # r \<Rightarrow>
          if c = CHR ''-'' then map_option uminus (parse_unsigned r)
          else if c = CHR ''+'' then parse_unsigned r
          else parse_unsigned s)"

function digits :: "int \<Rightarrow> string" where
  "digits n =
     (if n < 10 then [''0123456789'' ! nat n]
      else digits (n div 10) @ [''0123456789'' ! nat (n mod 10)])"
  by pat_completeness auto
termination
  by (relation "measure nat") auto

declare digits.simps [simp del]

definition round_half_even :: "rat \<Rightarrow> int" where
  "round_half_even x =
     (let f = floor x; r = x - of_int f
      in if r < 1 / 2 then f else if 1 / 2 < r then f + 1 else if even f then f else f + 1)"

definition dec_fmt :: "nat \<Rightarrow> rat \<Rightarrow> string" where
  "dec_fmt n x =
     (let q = round_half_even (\<bar>x\<bar> * 10 ^ n);
          fs = digits (q mod 10 ^ n)
      in (if x < 0 then ''-'' else []) @ digits (q div 10 ^ n) @ ''.'' @
         replicate (n - length fs) (CHR ''0'') @ fs)"

definition dec_str :: "rat \<Rightarrow> string" where
  "dec_str x =
     (let s = rstrip (CHR ''0'') (dec_fmt 17 x)
      in if suffix ''.'' s then s @ ''0'' else s)"

definition dec_float :: "rat float_impl" where
  "dec_float =
     \<lparr>float_of_str = dec_of_str, fmt8 = dec_fmt 8, fmt2 = dec_fmt 2, str_of_float = dec_str\<rparr>"

section \<open>Example inputs\<close>

text \<open>Concrete settings, tables and responses on which the handlers are run below.\<close>

definition example_config :: config where
  "example_config =
     \<lparr>user_id = ''1'', send_error = False, check_trade = True, check_trade_time = 5\<rparr>"

text \<open>
  The answer to \<^verbatim>\<open>QueryOrders\<close> for the order T1 in a given status, and a network that
  answers the first poll with an error, the second with the status \<^verbatim>\<open>open\<close> and every
  later one with the status \<^verbatim>\<open>closed\<close>.
\<close>

definition order_T1 :: "string \<Rightarrow> response" where
  "order_T1 status =
     \<lparr>error = [],
      result = Some (PDict [(''T1'', PDict [(''status'', PStr status),
        (''descr'', PDict [(''order'', PStr ''sell 0.50000000 XBTEUR @ limit 20000.0'')])])])\<rparr>"

definition polls :: "nat \<Rightarrow> outcome" where
  "polls k =
     (if k = 0 then Returns (error_response ''EGeneral:Temporary lockout'')
      else if k = 1 then Returns (order_T1 ''open'')
      else Returns (order_T1 ''closed''))"

text \<open>
  A response without errors, and a network whose second request (number 1) fails with
  an error response.
\<close>

definition ok_response :: response where
  "ok_response = \<lparr>error = [], result = Some (PDict [(''count'', PInt 1)])\<rparr>"

definition second_fails :: "nat \<Rightarrow> outcome" where
  "second_fails k =
     (if k = 1 then Returns (error_response ''EOrder:Unknown order'') else Returns ok_response)"

text \<open>
  The cached tables for two coins traded against the euro. For the sell-all handler: a
  network with two open orders where the cancellation of the first fails, and a network
  with no open order and a balance of two coins where the first sell order fails.
\<close>

definition example_tables :: tables where
  "example_tables =
     \<lparr>assets = [(''XXBT'', ''XBT''), (''XETH'', ''ETH''), (''ZEUR'', ''EUR'')],
      pairs = [(''XBT'', ''XXBTZEUR''), (''ETH'', ''XETHZEUR'')],
      limits = [(''XBT'', ''0.002''), (''ETH'', ''0.02'')]\<rparr>"

definition two_open_orders :: response where
  "two_open_orders =
     \<lparr>error = [],
      result = Some (PDict [(''open'', PDict [(''O1'', PDict []), (''O2'', PDict [])])])\<rparr>"

definition first_cancel_fails :: "nat \<Rightarrow> outcome" where
  "first_cancel_fails k =
     (if k = 0 then Returns two_open_orders
      else if k = 1 then Returns (error_response ''EOrder:Unknown order'')
      else Returns ok_response)"

definition no_open_orders :: response where
  "no_open_orders = \<lparr>error = [], result = Some (PDict [(''open'', PDict [])])\<rparr>"

definition example_balance :: response where
  "example_balance =
     \<lparr>error = [],
      result = Some (PDict [(''ZEUR'', PStr ''10.0000''), (''XXBT'', PStr ''1.5000000000''),
                            (''XETH'', PStr ''2.0000000000'')])\<rparr>"

definition first_sell_fails :: "nat \<Rightarrow> outcome" where
  "first_sell_fails k =
     (if k = 0 then Returns no_open_orders
      else if k = 1 then Returns example_balance
      else if k = 2 then Returns (error_response ''EOrder:Insufficient funds'')
      else Returns \<lparr>error = [], result = Some (PDict [(''txid'', PList [PStr ''T2''])])\<rparr>)"

text \<open>
  The chat data of a trade conversation after the price of a limit order was entered
  (to buy, and to sell), the tables without any minimum order size, and a network that
  answers the balance and then one open sell order of the given volume.
\<close>

definition limit_order_chat :: chat_data where
  "limit_order_chat =
     [(''buysell'', PStr ''buy''), (''currency'', PStr ''XBT''), (''one'', PStr ''XXBT''),
      (''two'', PStr ''ZEUR''), (''market_price'', PBool False), (''price'', PStr ''20000'')]"


definition sell_order_chat :: chat_data where
  "sell_order_chat =
     [(''buysell'', PStr ''sell''), (''currency'', PStr ''XBT''), (''one'', PStr ''XXBT''),
      (''two'', PStr ''ZEUR''), (''market_price'', PBool False), (''price'', PStr ''20000'')]"

definition open_sell_order :: "string \<Rightarrow> response" where
  "open_sell_order volume =
     \<lparr>error = [],
      result = Some (PDict [(''open'', PDict [(''O1'',
        PDict [(''descr'', PDict [(''order'',
          PStr (''sell '' @ volume @ '' XBTEUR @ limit 20000.0''))])])])])\<rparr>"

definition reserved_net :: "string \<Rightarrow> nat \<Rightarrow> outcome" where
  "reserved_net volume k =
     (if k = 0 then Returns example_balance else Returns (open_sell_order volume))"





section \<open>Sequencing of computations that can raise\<close>

lemma bind_err_simps [simp]:
  "bind_err (Inl e) f = Inl e" "bind_err (Inr x) f = f x"
  by (simp_all add: bind_err_def)

lemma bind_err_eq_Inr:
  "bind_err m f = Inr y \<longleftrightarrow> (\<exists>x. m = Inr x \<and> f x = Inr y)"
  by (cases m) simp_all

section \<open>Properties of the exchange client\<close>

text \<open>
  With a retry budget other than 0, a call that already carries its counter
  (\<open>retries = Some n\<close>) and meets only retryable failures makes \<open>n + 1\<close> requests.
\<close>

lemma query_scripted_retrying:
  assumes "R \<noteq> 0" and "\<And>j. script j = Raises (exs j)" and "\<And>j. retryable (exs j)"
  shows "query (scripted_kraken R script) method data private (Some (int n)) k =
           (last_error (exs (k + n)), Suc (k + n))"
proof (induction n arbitrary: k)
  case 0
  show ?case
    using assms by (simp add: query.simps scripted_kraken_def scripted_def retryable_def last_error_def)
next
  case (Suc n)
  have "query (scripted_kraken R script) method data private (Some (int (Suc n))) k =
          query (scripted_kraken R script) method data private (Some (int n)) (Suc k)"
    using assms by (simp add: query.simps scripted_kraken_def scripted_def retryable_def)
  then show ?case using Suc [of "Suc k"] by simp
qed

text \<open>
  The call of a handler (\<open>retries = None\<close>) on a network where every request fails
  with a retryable exception: one request for the budget 0, and \<open>R + 2\<close> requests for
  a budget \<open>R > 0\<close> (the first request, one more with the counter at \<open>R\<close>, and one
  for every decrement down to 0). The error returned is that of the last request.
\<close>

lemma query_all_fail_attempts:
  assumes "\<And>j. script j = Raises (exs j)" and "\<And>j. retryable (exs j)"
  shows "query (scripted_kraken R script) method data private None k =
           (if R = 0 then (last_error (exs k), Suc k)
            else (last_error (exs (k + 1 + nat R)), k + 2 + nat R))"
proof (cases "R = 0")
  case True
  then show ?thesis
    using assms by (simp add: query.simps scripted_kraken_def scripted_def retryable_def last_error_def)
next
  case False
  have step: "query (scripted_kraken R script) method data private None k =
          query (scripted_kraken R script) method data private (Some R) (Suc k)"
    using assms False by (simp add: query.simps scripted_kraken_def scripted_def retryable_def)
  show ?thesis
  proof (cases "0 < R")
    case True
    then have "R = int (nat R)" by simp
    then have "query (scripted_kraken R script) method data private (Some R) (Suc k) =
        (last_error (exs (Suc k + nat R)), Suc (Suc k + nat R))"
      using query_scripted_retrying [OF False assms, where n = "nat R" and k = "Suc k"] by simp
    with step False show ?thesis by simp
  next
    case neg: False
    then have "nat R = 0" by simp
    moreover have "query (scripted_kraken R script) method data private (Some R) (Suc k) =
        (last_error (exs (Suc k)), Suc (Suc k))"
      using assms False neg
      by (simp add: query.simps scripted_kraken_def scripted_def retryable_def last_error_def)
    ultimately show ?thesis using step False by simp
  qed
qed

text \<open>
  Claim C1 at the retry budget 1: every request raises
  \<^verbatim>\<open>ConnectionError("timed out")\<close>, which is retryable. The call makes three requests
  (the claim says \<open>R + 1 = 2\<close>) and returns the error dictionary with the type and the
  message of the exception.
\<close>

theorem query_retry_budget_one:
  "query (scripted_kraken 1 (\<lambda>k. Raises (Exn ''ConnectionError'' ''timed out'')))
     ''Balance'' None True None 0 = (error_response ''ConnectionError:timed out'', 3)"
proof -
  have "retryable (Exn ''ConnectionError'' ''timed out'')"
    by (simp add: retryable_def sublist_code(3) prefix_code(2))
  then show ?thesis
    using query_all_fail_attempts [of "\<lambda>k. Raises (Exn ''ConnectionError'' ''timed out'')"
        "\<lambda>k. Exn ''ConnectionError'' ''timed out''" 1 "''Balance''" None True 0]
    by (simp add: last_error_def)
qed

text \<open>
  Claim C7. Let the one request that \<open>query\<close> makes first raise \<open>ex\<close> and leave the
  world \<open>w'\<close>. If the text of \<open>ex\<close> contains \<^verbatim>\<open>Incorrect padding\<close> or
  \<^verbatim>\<open>Service:Unavailable\<close>, then for every retry budget and every counter \<open>query\<close>
  returns an error dictionary and the world \<open>w'\<close>: no second request is made. The same
  holds for any other exception when the retry budget is 0.
\<close>

theorem query_fatal_immediate:
  assumes "(if private then query_private K method data w else query_public K method data w) =
             (Raises ex, w')"
  shows "(sublist ''Incorrect padding'' (ex_str ex) \<longrightarrow>
            query K method data private retries w =
              (error_response
                 ''Incorrect padding: please verify that your Kraken API keys are valid'', w'))
       \<and> (\<not> sublist ''Incorrect padding'' (ex_str ex) \<and>
          sublist ''Service:Unavailable'' (ex_str ex) \<longrightarrow>
            query K method data private retries w = (error_response ''Service: Unavailable'', w'))
       \<and> (retries_cfg K = 0 \<and> retryable ex \<longrightarrow>
            query K method data private retries w = (last_error ex, w'))"
  using assms by (simp add: query.simps retryable_def last_error_def)

text \<open>
  On the counting network, with the budget 5 for the two fatal patterns and the budget 0
  for a timeout: one request each.
\<close>

theorem query_fatal_immediate_witness:
  "query (scripted_kraken 5 (\<lambda>k. Raises (Exn ''Error'' ''Incorrect padding'')))
     ''Balance'' None True None 0 =
     (error_response ''Incorrect padding: please verify that your Kraken API keys are valid'', 1)
   \<and> query (scripted_kraken 5 (\<lambda>k. Raises (Exn ''HTTPError'' ''EService:Unavailable'')))
     ''Balance'' None True None 0 = (error_response ''Service: Unavailable'', 1)
   \<and> query (scripted_kraken 0 (\<lambda>k. Raises (Exn ''ConnectionError'' ''timed out'')))
     ''Balance'' None True None 0 = (error_response ''ConnectionError:timed out'', 1)"
  using
    query_fatal_immediate [of True
      "scripted_kraken 5 (\<lambda>k. Raises (Exn ''Error'' ''Incorrect padding''))"
      "''Balance''" None 0 "Exn ''Error'' ''Incorrect padding''" 1 None]
    query_fatal_immediate [of True
      "scripted_kraken 5 (\<lambda>k. Raises (Exn ''HTTPError'' ''EService:Unavailable''))"
      "''Balance''" None 0 "Exn ''HTTPError'' ''EService:Unavailable''" 1 None]
    query_fatal_immediate [of True
      "scripted_kraken 0 (\<lambda>k. Raises (Exn ''ConnectionError'' ''timed out''))"
      "''Balance''" None 0 "Exn ''ConnectionError'' ''timed out''" 1 None]
  by (simp add: query.simps scripted_kraken_def scripted_def retryable_def last_error_def
      sublist_code(3) prefix_code(2))

section \<open>Properties of the order monitor\<close>

lemma tick_failed:
  assumes "query K ''QueryOrders'' (Some [(''txid'', order_txid)]) True None w = (res_data, w')"
    and "error res_data \<noteq> []"
  shows "order_state_check F K cfg order_txid w =
           (Inr (),
            LogError (btfy (hd (error res_data))) #
            (if send_error cfg
             then [SendMessage (''Order state check:'' @ nl @ emo_er @ '' '' @
                     btfy (hd (error res_data)))]
             else []),
            w')"
  using assms by (cases "error res_data") (simp_all add: order_state_check_def)

lemma tick_canceled:
  assumes "query K ''QueryOrders'' (Some [(''txid'', order_txid)]) True None w = (res_data, w')"
    and "error res_data = []"
    and "queried_status res_data order_txid = Inr (PStr ''canceled'')"
  shows "order_state_check F K cfg order_txid w = (Inr (), [ScheduleRemoval], w')"
  using assms
  by (auto simp: order_state_check_def queried_status_def bind_err_eq_Inr)

lemma tick_closed:
  assumes "query K ''QueryOrders'' (Some [(''txid'', order_txid)]) True None w = (res_data, w')"
    and "error res_data = []"
    and "queried_status res_data order_txid = Inr (PStr ''closed'')"
    and "queried_descr res_data order_txid = Inr desc"
    and "trim_zeros F desc = Inr shown"
  shows "order_state_check F K cfg order_txid w =
           (Inr (),
            [SendMessage (bold (emo_no @ '' Trade executed:'' @ nl @ order_txid @ nl @ shown)),
             ScheduleRemoval],
            w')"
  using assms
  by (auto simp: order_state_check_def queried_status_def queried_descr_def bind_err_eq_Inr)

lemma tick_other:
  assumes "query K ''QueryOrders'' (Some [(''txid'', order_txid)]) True None w = (res_data, w')"
    and "error res_data = []"
    and "queried_status res_data order_txid = Inr status"
    and "status \<noteq> PStr ''canceled''" and "status \<noteq> PStr ''closed''"
  shows "order_state_check F K cfg order_txid w = (Inr (), [], w')"
  using assms
  by (auto simp: order_state_check_def queried_status_def bind_err_eq_Inr)

lemma tick_removal_only:
  assumes "query K ''QueryOrders'' (Some [(''txid'', order_txid)]) True None w = (res_data, w')"
    and "ScheduleRemoval \<in> set (fst (snd (order_state_check F K cfg order_txid w)))"
  shows "error res_data = [] \<and>
         (queried_status res_data order_txid = Inr (PStr ''canceled'') \<or>
          queried_status res_data order_txid = Inr (PStr ''closed''))"
  using assms
  by (auto simp: order_state_check_def queried_status_def
           split: list.splits sum.splits if_splits)

lemma tick_removal_once:
  "count_list (fst (snd (order_state_check F K cfg order_txid w))) ScheduleRemoval \<le> 1"
  by (auto simp: order_state_check_def split: prod.splits list.splits sum.splits if_splits)

lemma run_job_removal_once:
  "count_list (fst (run_job F K cfg order_txid n w)) ScheduleRemoval \<le> 1"
proof (induction n arbitrary: w)
  case 0
  show ?case by simp
next
  case (Suc n)
  obtain r evs w' where t: "order_state_check F K cfg order_txid w = (r, evs, w')"
    by (cases "order_state_check F K cfg order_txid w") auto
  show ?case
  proof (cases "ScheduleRemoval \<in> set evs")
    case True
    then show ?thesis using t tick_removal_once [of F K cfg order_txid w] by simp
  next
    case False
    then have "count_list evs ScheduleRemoval = 0" by (simp add: count_list_0_iff)
    then show ?thesis using t False Suc [of w']
      by (auto split: prod.splits)
  qed
qed

text \<open>
  Claim C5. Let the poll of a tick return \<open>res_data\<close>. A failed poll (a response with
  errors) is logged (and sent to the owner when \<^verbatim>\<open>send_error\<close> is set) and the job is
  not removed. With the status \<^verbatim>\<open>canceled\<close> the tick removes the job and sends
  nothing; with the status \<^verbatim>\<open>closed\<close> it sends the message \<^verbatim>\<open>Trade executed\<close> with
  the order and its description, then removes the job; with any other status it does
  nothing. A tick that removes the job has polled without error and read the status
  \<^verbatim>\<open>canceled\<close> or \<^verbatim>\<open>closed\<close>; a tick schedules the removal at most once, and so
  does the whole run of the job over any number of intervals.
\<close>

theorem order_state_check_tick:
  assumes "query K ''QueryOrders'' (Some [(''txid'', order_txid)]) True None w = (res_data, w')"
  shows "(error res_data \<noteq> [] \<longrightarrow>
            order_state_check F K cfg order_txid w =
              (Inr (),
               LogError (btfy (hd (error res_data))) #
               (if send_error cfg
                then [SendMessage (''Order state check:'' @ nl @ emo_er @ '' '' @
                        btfy (hd (error res_data)))]
                else []),
               w'))
       \<and> (error res_data = [] \<and> queried_status res_data order_txid = Inr (PStr ''canceled'') \<longrightarrow>
            order_state_check F K cfg order_txid w = (Inr (), [ScheduleRemoval], w'))
       \<and> (error res_data = [] \<and> queried_status res_data order_txid = Inr (PStr ''closed'') \<and>
          queried_descr res_data order_txid = Inr desc \<and> trim_zeros F desc = Inr shown \<longrightarrow>
            order_state_check F K cfg order_txid w =
              (Inr (),
               [SendMessage
                  (bold (emo_no @ '' Trade executed:'' @ nl @ order_txid @ nl @ shown)),
                ScheduleRemoval],
               w'))
       \<and> (error res_data = [] \<and> queried_status res_data order_txid = Inr status \<and>
          status \<noteq> PStr ''canceled'' \<and> status \<noteq> PStr ''closed'' \<longrightarrow>
            order_state_check F K cfg order_txid w = (Inr (), [], w'))
       \<and> (ScheduleRemoval \<in> set (fst (snd (order_state_check F K cfg order_txid w))) \<longrightarrow>
            error res_data = [] \<and>
            (queried_status res_data order_txid = Inr (PStr ''canceled'') \<or>
             queried_status res_data order_txid = Inr (PStr ''closed'')))
       \<and> count_list (fst (snd (order_state_check F K cfg order_txid w))) ScheduleRemoval \<le> 1
       \<and> count_list (fst (run_job F K cfg order_txid n w)) ScheduleRemoval \<le> 1"
proof (intro conjI impI)
  assume "error res_data \<noteq> []"
  then show "order_state_check F K cfg order_txid w =
              (Inr (),
               LogError (btfy (hd (error res_data))) #
               (if send_error cfg
                then [SendMessage (''Order state check:'' @ nl @ emo_er @ '' '' @
                        btfy (hd (error res_data)))]
                else []),
               w')"
    by (rule tick_failed [OF assms])
next
  assume "error res_data = [] \<and> queried_status res_data order_txid = Inr (PStr ''canceled'')"
  then show "order_state_check F K cfg order_txid w = (Inr (), [ScheduleRemoval], w')"
    using tick_canceled [OF assms] by simp
next
  assume "error res_data = [] \<and> queried_status res_data order_txid = Inr (PStr ''closed'') \<and>
          queried_descr res_data order_txid = Inr desc \<and> trim_zeros F desc = Inr shown"
  then show "order_state_check F K cfg order_txid w =
              (Inr (),
               [SendMessage
                  (bold (emo_no @ '' Trade executed:'' @ nl @ order_txid @ nl @ shown)),
                ScheduleRemoval],
               w')"
    using tick_closed [OF assms, where desc = desc and shown = shown and F = F] by simp
next
  assume "error res_data = [] \<and> queried_status res_data order_txid = Inr status \<and>
          status \<noteq> PStr ''canceled'' \<and> status \<noteq> PStr ''closed''"
  then show "order_state_check F K cfg order_txid w = (Inr (), [], w')"
    using tick_other [OF assms, where status = status] by simp
next
  assume r: "ScheduleRemoval \<in> set (fst (snd (order_state_check F K cfg order_txid w)))"
  show "error res_data = []"
    using tick_removal_only [OF assms r] by simp
  show "queried_status res_data order_txid = Inr (PStr ''canceled'') \<or>
        queried_status res_data order_txid = Inr (PStr ''closed'')"
    using tick_removal_only [OF assms r] by simp
next
  show "count_list (fst (snd (order_state_check F K cfg order_txid w))) ScheduleRemoval \<le> 1"
    by (rule tick_removal_once)
next
  show "count_list (fst (run_job F K cfg order_txid n w)) ScheduleRemoval \<le> 1"
    by (rule run_job_removal_once)
qed

text \<open>
  Three ticks of the job of the order T1: a failed poll, the status \<^verbatim>\<open>open\<close>, the
  status \<^verbatim>\<open>closed\<close>.
\<close>

theorem order_state_check_tick_witness:
  "order_state_check dec_float (scripted_kraken 0 polls) example_config ''T1'' 0 =
     (Inr (), [LogError (btfy ''EGeneral:Temporary lockout'')], 1)
   \<and> order_state_check dec_float (scripted_kraken 0 polls) example_config ''T1'' 1 = (Inr (), [], 2)
   \<and> order_state_check dec_float (scripted_kraken 0 polls) example_config ''T1'' 2 =
     (Inr (),
      [SendMessage (bold (emo_no @ '' Trade executed:'' @ nl @ ''T1'' @ nl @
         ''sell 0.5 XBTEUR @ limit 20000'')),
       ScheduleRemoval], 3)"
proof -
  let ?K = "scripted_kraken 0 polls"
  have q0: "query ?K ''QueryOrders'' (Some [(''txid'', ''T1'')]) True None 0 =
              (error_response ''EGeneral:Temporary lockout'', 1)"
    by (simp add: query.simps scripted_kraken_def scripted_def polls_def)
  have q1: "query ?K ''QueryOrders'' (Some [(''txid'', ''T1'')]) True None 1 =
              (order_T1 ''open'', 2)"
    by (simp add: query.simps scripted_kraken_def scripted_def polls_def)
  have q2: "query ?K ''QueryOrders'' (Some [(''txid'', ''T1'')]) True None 2 =
              (order_T1 ''closed'', 3)"
    by (simp add: query.simps scripted_kraken_def scripted_def polls_def)
  have s: "queried_status (order_T1 st) ''T1'' = Inr (PStr st)" for st
    by (simp add: queried_status_def order_T1_def get_result_def subscript_def)
  have d: "queried_descr (order_T1 st) ''T1'' = Inr ''sell 0.50000000 XBTEUR @ limit 20000.0''" for st
    by (simp add: queried_descr_def order_T1_def get_result_def subscript_def as_str_def)
  have t: "trim_zeros dec_float ''sell 0.50000000 XBTEUR @ limit 20000.0'' =
             Inr ''sell 0.5 XBTEUR @ limit 20000''"
    by code_simp
  show ?thesis
    using order_state_check_tick [OF q0, where F = dec_float and cfg = example_config]
      order_state_check_tick [OF q1, where F = dec_float and cfg = example_config and status = "PStr ''open''"]
      order_state_check_tick [OF q2, where F = dec_float and cfg = example_config
        and desc = "''sell 0.50000000 XBTEUR @ limit 20000.0''"
        and shown = "''sell 0.5 XBTEUR @ limit 20000''"] s d t
    by (simp add: error_response_def order_T1_def example_config_def)
qed

section \<open>Properties of the orders workflow\<close>

lemma length_cancel_run: "length (fst (cancel_run K ids w)) = length ids"
proof (induction ids arbitrary: w)
  case Nil
  show ?case by simp
next
  case (Cons order_id rest)
  obtain res_data w' where q:
    "query K ''CancelOrder'' (Some [(''txid'', order_id)]) True None w = (res_data, w')"
    by (cases "query K ''CancelOrder'' (Some [(''txid'', order_id)]) True None w")
  obtain rs w'' where c: "cancel_run K rest w' = (rs, w'')"
    by (cases "cancel_run K rest w'")
  have "length rs = length rest" using Cons.IH [of w'] c by simp
  then show ?case using q c by simp
qed

lemma close_orders_run:
  "close_orders K n x orders closed_orders w =
     (closed_orders @ closed_ids (zip (map fst orders) (fst (cancel_run K (map fst orders) w))),
      concat (map (close_report n)
        (zip [x ..< x + length orders]
           (zip (map fst orders) (fst (cancel_run K (map fst orders) w))))),
      snd (cancel_run K (map fst orders) w))"
proof (induction orders arbitrary: x closed_orders w)
  case Nil
  show ?case by (simp add: closed_ids_def)
next
  case (Cons order rest)
  obtain order_id details where o: "order = (order_id, details)" by (cases order)
  obtain res_data w' where q:
    "query K ''CancelOrder'' (Some [(''txid'', order_id)]) True None w = (res_data, w')"
    by (cases "query K ''CancelOrder'' (Some [(''txid'', order_id)]) True None w")
  have upt: "[x ..< x + length (order # rest)] = x # [Suc x ..< Suc x + length rest]"
    by (simp add: upt_rec)
  show ?case
  proof (cases "error res_data")
    case Nil
    then show ?thesis
      using Cons.IH [of "Suc x" "closed_orders @ [order_id]" w'] o q upt
      by (simp add: handle_api_error_def closed_ids_def close_report_def split: prod.splits)
  next
    case (Cons e es)
    then show ?thesis
      using Cons.IH [of "Suc x" closed_orders w'] o q upt
      by (simp add: handle_api_error_def closed_ids_def close_report_def split: prod.splits)
  qed
qed

text \<open>
  Claim C6. \<^verbatim>\<open>orders_close_all\<close> over a cached list of \<open>N\<close> open orders leaves the
  world as the \<open>N\<close> cancel calls made one after the other leave it: every order is
  attempted, whatever the calls before it answered. Every failed call is reported with
  the order and the error (and, unless the order is the last, the message that the next
  order follows), and the final message lists exactly the orders whose call returned
  no error; when there is none it says that no order was closed.
\<close>

theorem orders_close_all_partial_failure:
  "orders_close_all K orders w =
     (if orders = [] then
        (END, [Reply (emo_wa @ '' Closing orders...''), Reply (bold ''No open orders'')], w)
      else
        (if closed_ids (zip (map fst orders) (fst (cancel_run K (map fst orders) w))) \<noteq> []
         then END else ReturnNone,
         [Reply (emo_wa @ '' Closing orders...'')] @
         concat (map (close_report (length orders))
           (zip [0 ..< length orders]
              (zip (map fst orders) (fst (cancel_run K (map fst orders) w))))) @
         [if closed_ids (zip (map fst orders) (fst (cancel_run K (map fst orders) w))) \<noteq> []
          then Reply (emo_fi @ bold ('' Orders closed:'' @ nl @
                 join nl (closed_ids
                   (zip (map fst orders) (fst (cancel_run K (map fst orders) w))))))
          else Reply (bold ''No orders closed'')],
         snd (cancel_run K (map fst orders) w)))
   \<and> length (fst (cancel_run K (map fst orders) w)) = length orders"
  by (simp add: orders_close_all_def close_orders_run length_cancel_run)

text \<open>Three orders, the cancellation of the second fails.\<close>

theorem orders_close_all_witness:
  "orders_close_all (scripted_kraken 0 second_fails)
     [(''O1'', PNone), (''O2'', PNone), (''O3'', PNone)] 0 =
     (END,
      [Reply (emo_wa @ '' Closing orders...''),
       Reply (btfy (''Order not closed:'' @ nl @ ''O2'' @ nl @ ''EOrder:Unknown order'')),
       LogError (btfy (''Order not closed:'' @ nl @ ''O2'' @ nl @ ''EOrder:Unknown order'')),
       Reply (emo_wa @ '' Closing next order...''),
       Reply (emo_fi @ bold ('' Orders closed:'' @ nl @ ''O1'' @ nl @ ''O3''))],
      3)"
proof -
  have r: "cancel_run (scripted_kraken 0 second_fails) [''O1'', ''O2'', ''O3''] 0 =
             ([ok_response, error_response ''EOrder:Unknown order'', ok_response], 3)"
    by (simp add: query.simps scripted_kraken_def scripted_def second_fails_def)
  show ?thesis
    using orders_close_all_partial_failure [of "scripted_kraken 0 second_fails"
        "[(''O1'', PNone), (''O2'', PNone), (''O3'', PNone)]" 0] r
    by (simp add: closed_ids_def close_report_def ok_response_def error_response_def
        upt_rec)
qed

section \<open>Properties of selling everything\<close>

lemma cancel_open_orders_fail:
  assumes "query K ''CancelOrder'' (Some [(''txid'', order)]) True None w = (r, w')"
    and "error r = e # es"
  shows "cancel_open_orders K (order # post) w =
           (False,
            [Reply (btfy (''Not possible to close order'' @ nl @ order @ nl @ e)),
             LogError (btfy (''Not possible to close order'' @ nl @ order @ nl @ e))],
            w')"
  using assms by (simp add: handle_api_error_def)

lemma cancel_open_orders_ok:
  assumes "query K ''CancelOrder'' (Some [(''txid'', order)]) True None w = (r, w')"
    and "error r = []"
  shows "cancel_open_orders K (order # post) w = cancel_open_orders K post w'"
  using assms by (simp add: handle_api_error_def split: prod.splits)

lemma cancel_open_orders_abort:
  assumes "cancel_run K (pre @ [order]) w = (rs @ [r], w2)"
    and "\<forall>x \<in> set rs. error x = []"
    and "error r = e # es"
  shows "cancel_open_orders K (pre @ order # post) w =
           (False,
            [Reply (btfy (''Not possible to close order'' @ nl @ order @ nl @ e)),
             LogError (btfy (''Not possible to close order'' @ nl @ order @ nl @ e))],
            w2)"
  using assms
proof (induction pre arbitrary: w rs)
  case Nil
  obtain r0 w' where q: "query K ''CancelOrder'' (Some [(''txid'', order)]) True None w = (r0, w')"
    by (cases "query K ''CancelOrder'' (Some [(''txid'', order)]) True None w")
  with Nil.prems(1) have "rs = []" "r0 = r" "w' = w2" by auto
  with q have "query K ''CancelOrder'' (Some [(''txid'', order)]) True None w = (r, w2)"
    by simp
  from cancel_open_orders_fail [OF this Nil.prems(3)] show ?case by simp
next
  case (Cons p pre)
  obtain r0 w' where q: "query K ''CancelOrder'' (Some [(''txid'', p)]) True None w = (r0, w')"
    by (cases "query K ''CancelOrder'' (Some [(''txid'', p)]) True None w")
  obtain rs' w'' where c: "cancel_run K (pre @ [order]) w' = (rs', w'')"
    by (cases "cancel_run K (pre @ [order]) w'")
  from Cons.prems(1) q c have eq: "rs @ [r] = r0 # rs'" and w: "w'' = w2" by auto
  have "length rs' = length (pre @ [order])"
    using length_cancel_run [of K "pre @ [order]" w'] c by simp
  then have "rs' \<noteq> []" by auto
  with eq obtain rs0 where rs: "rs = r0 # rs0" and rs': "rs' = rs0 @ [r]"
    by (cases rs) auto
  have ok: "error r0 = []" using Cons.prems(2) rs by simp
  have "cancel_open_orders K (pre @ order # post) w' =
           (False,
            [Reply (btfy (''Not possible to close order'' @ nl @ order @ nl @ e)),
             LogError (btfy (''Not possible to close order'' @ nl @ order @ nl @ e))],
            w2)"
    using Cons.IH [of w' rs0] c rs' w Cons.prems(2,3) rs by simp
  then show ?case using cancel_open_orders_ok [OF q ok] by simp
qed

lemma open_orders_of_Inr:
  assumes "open_orders_of res_orders = Inr (open_orders, txids)"
  shows "\<exists>res. get_result res_orders = Inr res \<and> subscript res ''open'' = Inr open_orders \<and>
           (if truthy open_orders then keys_of open_orders else Inr []) = Inr txids"
  using assms
  by (auto simp: open_orders_of_def bind_err_eq_Inr split: if_splits)

lemma sell_all_cancel_fails:
  assumes "upper text \<noteq> ''NO''"
    and "query K ''OpenOrders'' None True None w = (res_open_orders, w1)"
    and "error res_open_orders = []"
    and "open_orders_of res_open_orders = Inr (open_orders, txids)"
    and "cancel_open_orders K txids w1 = (False, evs2, w2)"
  shows "trade_sell_all_confirm F K cfg T text w =
           (Inr ReturnNone, Reply (emo_wa @ '' Preparing to sell everything...'') # evs2, w2)"
proof -
  from open_orders_of_Inr [OF assms(4)] obtain res where
    "get_result res_open_orders = Inr res" "subscript res ''open'' = Inr open_orders"
    "(if truthy open_orders then keys_of open_orders else Inr []) = Inr txids"
    by blast
  then show ?thesis
    using assms(1,2,3,5) by (simp add: trade_sell_all_confirm_def handle_api_error_def)
qed

lemma sell_assets_add_order_fails:
  assumes "\<not> prefix ''Z'' balance_asset" and "volume \<noteq> ''0.0000000000''"
    and "map_of (assets T) balance_asset = Some altname"
    and "map_of (limits T) altname = Some limit"
    and "pyfloat F volume = Inr a" and "pyfloat F limit = Inr l" and "\<not> a < l"
    and "map_of (pairs T) altname = Some pair"
    and "query K ''AddOrder''
           (Some [(''type'', ''sell''), (''trading_agreement'', ''agree''), (''pair'', pair),
                  (''ordertype'', ''market''), (''volume'', volume)])
           True None w = (res_add_order, w')"
    and "error res_add_order = e # es"
  shows "sell_assets F K cfg T ((balance_asset, PStr volume) # rest) w =
           (case sell_assets F K cfg T rest w' of
              (r, evs, w'') \<Rightarrow> (r, [Reply (btfy e), LogError (btfy e)] @ evs, w''))"
  using assms by (simp add: as_str_def handle_api_error_def split: prod.splits)

text \<open>
  Claim C2, as the code has it. In the sell-all batch a failure to cancel an open
  order is reported and ends the handler at once: with the open orders
  \<open>pre @ order # post\<close>, where the orders of \<open>pre\<close> are cancelled and the cancellation
  of \<open>order\<close> fails, the handler returns nothing, having made no request after the failed
  one (no order of \<open>post\<close> is cancelled, the balance is not read, nothing is sold). A
  failure to place the sell order of an asset is reported and the loop goes on with the
  next asset.
\<close>

theorem sell_all_failure_policy:
  "(upper text \<noteq> ''NO'' \<and>
    query K ''OpenOrders'' None True None w = (res_open_orders, w1) \<and>
    error res_open_orders = [] \<and>
    open_orders_of res_open_orders = Inr (open_orders, pre @ order # post) \<and>
    cancel_run K (pre @ [order]) w1 = (rs @ [r], w2) \<and>
    (\<forall>x \<in> set rs. error x = []) \<and> error r = e # es \<longrightarrow>
      trade_sell_all_confirm F K cfg T text w =
        (Inr ReturnNone,
         [Reply (emo_wa @ '' Preparing to sell everything...''),
          Reply (btfy (''Not possible to close order'' @ nl @ order @ nl @ e)),
          LogError (btfy (''Not possible to close order'' @ nl @ order @ nl @ e))],
         w2))
   \<and> (\<not> prefix ''Z'' balance_asset \<and> volume \<noteq> ''0.0000000000'' \<and>
      map_of (assets T) balance_asset = Some altname \<and>
      map_of (limits T) altname = Some limit \<and>
      pyfloat F volume = Inr a \<and> pyfloat F limit = Inr l \<and> \<not> a < l \<and>
      map_of (pairs T) altname = Some pair \<and>
      query K ''AddOrder''
        (Some [(''type'', ''sell''), (''trading_agreement'', ''agree''), (''pair'', pair),
               (''ordertype'', ''market''), (''volume'', volume)])
        True None w3 = (res_add_order, w4) \<and>
      error res_add_order = e' # es' \<longrightarrow>
        sell_assets F K cfg T ((balance_asset, PStr volume) # rest) w3 =
          (case sell_assets F K cfg T rest w4 of
             (res, evs, w5) \<Rightarrow> (res, [Reply (btfy e'), LogError (btfy e')] @ evs, w5)))"
proof (intro conjI impI)
  assume a: "upper text \<noteq> ''NO'' \<and>
    query K ''OpenOrders'' None True None w = (res_open_orders, w1) \<and>
    error res_open_orders = [] \<and>
    open_orders_of res_open_orders = Inr (open_orders, pre @ order # post) \<and>
    cancel_run K (pre @ [order]) w1 = (rs @ [r], w2) \<and>
    (\<forall>x \<in> set rs. error x = []) \<and> error r = e # es"
  then have "cancel_open_orders K (pre @ order # post) w1 =
           (False,
            [Reply (btfy (''Not possible to close order'' @ nl @ order @ nl @ e)),
             LogError (btfy (''Not possible to close order'' @ nl @ order @ nl @ e))],
            w2)"
    using cancel_open_orders_abort [of K pre order w1 rs r w2 e es post] by simp
  with a show "trade_sell_all_confirm F K cfg T text w =
        (Inr ReturnNone,
         [Reply (emo_wa @ '' Preparing to sell everything...''),
          Reply (btfy (''Not possible to close order'' @ nl @ order @ nl @ e)),
          LogError (btfy (''Not possible to close order'' @ nl @ order @ nl @ e))],
         w2)"
    using sell_all_cancel_fails [of "text" K w res_open_orders w1 open_orders
        "pre @ order # post" _ w2 F cfg T]
    by simp
next
  assume "\<not> prefix ''Z'' balance_asset \<and> volume \<noteq> ''0.0000000000'' \<and>
      map_of (assets T) balance_asset = Some altname \<and>
      map_of (limits T) altname = Some limit \<and>
      pyfloat F volume = Inr a \<and> pyfloat F limit = Inr l \<and> \<not> a < l \<and>
      map_of (pairs T) altname = Some pair \<and>
      query K ''AddOrder''
        (Some [(''type'', ''sell''), (''trading_agreement'', ''agree''), (''pair'', pair),
               (''ordertype'', ''market''), (''volume'', volume)])
        True None w3 = (res_add_order, w4) \<and>
      error res_add_order = e' # es'"
  then show "sell_assets F K cfg T ((balance_asset, PStr volume) # rest) w3 =
          (case sell_assets F K cfg T rest w4 of
             (res, evs, w5) \<Rightarrow> (res, [Reply (btfy e'), LogError (btfy e')] @ evs, w5))"
    using sell_assets_add_order_fails [of balance_asset volume T altname limit F a l pair K
        w3 res_add_order w4 e' es' cfg rest]
    by simp
qed

text \<open>
  Claim C2 as stated fails for the cancellations: with the open orders O1 and O2 and a
  failing cancellation of O1, the handler makes two requests (the open orders, the
  cancellation of O1) and returns; the cancellation of O2 is never attempted.
\<close>

theorem sell_all_cancel_failure_counterexample:
  "trade_sell_all_confirm dec_float (scripted_kraken 0 first_cancel_fails) example_config
     example_tables ''YES'' 0 =
     (Inr ReturnNone,
      [Reply (emo_wa @ '' Preparing to sell everything...''),
       Reply (btfy (''Not possible to close order'' @ nl @ ''O1'' @ nl @ ''EOrder:Unknown order'')),
       LogError (btfy (''Not possible to close order'' @ nl @ ''O1'' @ nl @
         ''EOrder:Unknown order''))],
      2)"
  by (simp add: trade_sell_all_confirm_def query.simps scripted_kraken_def scripted_def
      first_cancel_fails_def two_open_orders_def error_response_def handle_api_error_def
      get_result_def subscript_def keys_of_def upper_def upper_char_def)

text \<open>
  The run above, and a run with no open order where the sell order of the first of two
  coins fails: the second coin is sold and its order is monitored.
\<close>

theorem sell_all_failure_policy_witness:
  "trade_sell_all_confirm dec_float (scripted_kraken 0 first_cancel_fails) example_config
     example_tables ''YES'' 0 =
     (Inr ReturnNone,
      [Reply (emo_wa @ '' Preparing to sell everything...''),
       Reply (btfy (''Not possible to close order'' @ nl @ ''O1'' @ nl @ ''EOrder:Unknown order'')),
       LogError (btfy (''Not possible to close order'' @ nl @ ''O1'' @ nl @
         ''EOrder:Unknown order''))],
      2)
   \<and> sell_assets dec_float (scripted_kraken 0 first_sell_fails) example_config example_tables
       [(''XXBT'', PStr ''1.5000000000''), (''XETH'', PStr ''2.0000000000'')] 2 =
     (Inr (),
      [Reply (btfy ''EOrder:Insufficient funds''), LogError (btfy ''EOrder:Insufficient funds''),
       RunRepeating ''T2'' 5],
      4)
   \<and> trade_sell_all_confirm dec_float (scripted_kraken 0 first_sell_fails) example_config
       example_tables ''YES'' 0 =
     (Inr END,
      [Reply (emo_wa @ '' Preparing to sell everything...''),
       Reply (btfy ''EOrder:Insufficient funds''), LogError (btfy ''EOrder:Insufficient funds''),
       RunRepeating ''T2'' 5,
       Reply (bold (emo_fi @ '' Created orders to sell all assets''))],
      4)"
proof -
  let ?K1 = "scripted_kraken 0 first_cancel_fails"
  let ?K2 = "scripted_kraken 0 first_sell_fails"
  have u: "upper ''YES'' \<noteq> ''NO''"
    by (simp add: upper_def)
  have q0: "query ?K1 ''OpenOrders'' None True None 0 = (two_open_orders, 1)"
    by (simp add: query.simps scripted_kraken_def scripted_def first_cancel_fails_def)
  have e0: "error two_open_orders = []"
    by (simp add: two_open_orders_def)
  have o0: "open_orders_of two_open_orders =
              Inr (PDict [(''O1'', PDict []), (''O2'', PDict [])], [] @ ''O1'' # [''O2''])"
    by (simp add: open_orders_of_def two_open_orders_def get_result_def subscript_def
        keys_of_def)
  have c0: "cancel_run ?K1 ([] @ [''O1'']) 1 = ([] @ [error_response ''EOrder:Unknown order''], 2)"
    by (simp add: query.simps scripted_kraken_def scripted_def first_cancel_fails_def)
  have r0: "error (error_response ''EOrder:Unknown order'') = ''EOrder:Unknown order'' # []"
    by (simp add: error_response_def)
  have f1: "pyfloat dec_float ''1.5000000000'' = Inr (3 / 2)" by code_simp
  have f2: "pyfloat dec_float ''0.002'' = Inr (1 / 500)" by code_simp
  have f3: "pyfloat dec_float ''2.0000000000'' = Inr 2" by code_simp
  have f4: "pyfloat dec_float ''0.02'' = Inr (1 / 50)" by code_simp
  have q2: "query ?K2 ''AddOrder''
        (Some [(''type'', ''sell''), (''trading_agreement'', ''agree''), (''pair'', ''XXBTZEUR''),
               (''ordertype'', ''market''), (''volume'', ''1.5000000000'')])
        True None 2 = (error_response ''EOrder:Insufficient funds'', 3)"
    by (simp add: query.simps scripted_kraken_def scripted_def first_sell_fails_def)
  have r2: "error (error_response ''EOrder:Insufficient funds'') =
              ''EOrder:Insufficient funds'' # []"
    by (simp add: error_response_def)
  have rest: "sell_assets dec_float ?K2 example_config example_tables
                [(''XETH'', PStr ''2.0000000000'')] 3 = (Inr (), [RunRepeating ''T2'' 5], 4)"
    using f3 f4
    by (simp add: example_tables_def example_config_def as_str_def query.simps
        scripted_kraken_def scripted_def first_sell_fails_def handle_api_error_def
        get_result_def subscript_def first_item_def)
  have full: "trade_sell_all_confirm dec_float ?K2 example_config example_tables ''YES'' 0 =
     (Inr END,
      [Reply (emo_wa @ '' Preparing to sell everything...''),
       Reply (btfy ''EOrder:Insufficient funds''), LogError (btfy ''EOrder:Insufficient funds''),
       RunRepeating ''T2'' 5,
       Reply (bold (emo_fi @ '' Created orders to sell all assets''))],
      4)"
    using f1 f2 f3 f4 u
    by (simp add: trade_sell_all_confirm_def example_tables_def example_config_def as_str_def
        query.simps scripted_kraken_def scripted_def first_sell_fails_def handle_api_error_def
        get_result_def subscript_def first_item_def no_open_orders_def example_balance_def
        items_of_def error_response_def)
  have tabs: "map_of (assets example_tables) ''XXBT'' = Some ''XBT''"
    "map_of (limits example_tables) ''XBT'' = Some ''0.002''"
    "map_of (pairs example_tables) ''XBT'' = Some ''XXBTZEUR''"
    by (simp_all add: example_tables_def)
  show ?thesis
    using
      sell_all_failure_policy [of "''YES''", where K = ?K1 and w = 0
        and res_open_orders = two_open_orders and ?w1.0 = 1
        and open_orders = "PDict [(''O1'', PDict []), (''O2'', PDict [])]"
        and pre = "[]" and order = "''O1''" and post = "[''O2'']" and rs = "[]"
        and r = "error_response ''EOrder:Unknown order''" and ?w2.0 = 2
        and e = "''EOrder:Unknown order''" and es = "[]"
        and F = dec_float and cfg = example_config and T = example_tables]
      sell_all_failure_policy [where K = ?K2 and F = dec_float and cfg = example_config
        and T = example_tables and balance_asset = "''XXBT''" and volume = "''1.5000000000''"
        and altname = "''XBT''" and limit = "''0.002''" and a = "3 / 2" and l = "1 / 500"
        and pair = "''XXBTZEUR''" and ?w3.0 = 2
        and res_add_order = "error_response ''EOrder:Insufficient funds''" and ?w4.0 = 3
        and e' = "''EOrder:Insufficient funds''" and es' = "[]"
        and rest = "[(''XETH'', PStr ''2.0000000000'')]"]
      u q0 e0 o0 c0 r0 f1 f2 q2 r2 rest full tabs
    by simp
qed

section \<open>Properties of cancelling\<close>

lemma fold_delete_filter:
  "fold AList.delete ks d = filter (\<lambda>(k, v). k \<notin> set ks) d"
proof (induction ks arbitrary: d)
  case Nil
  show ?case by simp
next
  case (Cons k ks)
  have "fold AList.delete (k # ks) d = fold AList.delete ks (AList.delete k d)"
    by simp
  also have "\<dots> = filter (\<lambda>(k', v). k' \<notin> set ks) (AList.delete k d)"
    by (rule Cons.IH)
  also have "\<dots> = filter (\<lambda>(k', v). k' \<notin> set (k # ks)) d"
    by (auto simp: AList.delete_eq intro: filter_cong)
  finally show ?case .
qed

lemma clear_chat_data_Some: "clear_chat_data (Some d) = Some []"
proof -
  have "filter (\<lambda>(k, v). k \<notin> set (map fst d)) d = []"
    by (force simp: filter_empty_conv)
  then show ?thesis by (simp add: clear_chat_data_def fold_delete_filter)
qed

text \<open>
  A step that hands the chat data to \<^verbatim>\<open>cancel\<close> leaves it empty.
\<close>

lemma cancel_step_clears:
  "cancel_step chat_data = (END, [Reply (emo_ca @ '' Canceled...'')], [])"
  by (simp add: cancel_step_def cancel_def clear_chat_data_Some)

lemma upper_NO: "upper ''NO'' = ''NO''" "upper ''no'' = ''NO''"
  by (simp_all add: upper_def upper_char_def)

text \<open>
  The answer \<^verbatim>\<open>NO\<close> at the sell-all confirmation calls \<^verbatim>\<open>cancel(bot, update)\<close>, without
  the chat data: whatever the chat data holds, it is left as it is.
\<close>

lemma sell_all_confirm_no_keeps_chat_data:
  "sell_all_confirm_step F K cfg T ''NO'' chat_data w =
     (Inr END, [Reply (emo_ca @ '' Canceled...'')], chat_data, w)"
  by (simp add: sell_all_confirm_step_def trade_sell_all_confirm_def cancel_def upper_NO)

text \<open>
  Claim C3 at the sell-all confirmation. The chat data holds the side stored by
  \<^verbatim>\<open>trade_buy_sell\<close>; the answer \<^verbatim>\<open>NO\<close> ends the conversation with the message of
  \<^verbatim>\<open>cancel\<close>, and the chat data is as before: the claim has it empty.
\<close>

theorem sell_all_confirm_no_leaves_scratch:
  "sell_all_confirm_step dec_float (scripted_kraken 0 polls) example_config example_tables
     ''NO'' [(''buysell'', PStr ''sell'')] 0 =
     (Inr END, [Reply (emo_ca @ '' Canceled...'')], [(''buysell'', PStr ''sell'')], 0)"
  by (rule sell_all_confirm_no_keeps_chat_data)

section \<open>Properties of the volume entry\<close>

lemma cd_str_update_other:
  "k \<noteq> k' \<Longrightarrow> cd_str (AList.update k v chat_data) k' = cd_str chat_data k'"
  by (simp add: cd_str_def cd_get_def update_conv')

lemma cd_str_update_same:
  "cd_str (AList.update k (PStr s) chat_data) k = Inr s"
  by (simp add: cd_str_def cd_get_def update_conv' as_str_def)

lemma check_limit_low:
  fixes F :: "'f::{ord,times} float_impl"
  assumes "cd_str chat_data ''currency'' = Inr currency"
    and "map_of (limits T) currency = Some limit"
    and "pyfloat F limit = Inr l"
    and "cd_str chat_data ''volume'' = Inr volume"
    and "pyfloat F volume = Inr v"
    and "v < l"
  shows "check_limit_and_confirm F K T chat_data w =
           (Inr (Goto TRADE_VOLUME),
            [Reply (emo_er @ '' Volume to low. Must be > '' @ limit),
             LogWarning (emo_er @ '' Volume to low. Must be > '' @ limit),
             Reply ''Enter new volume''],
            chat_data, w)"
  using assms by (simp add: check_limit_and_confirm_def)

lemma check_limit_ok:
  fixes F :: "'f::{ord,times} float_impl"
  assumes "cd_str chat_data ''currency'' = Inr currency"
    and "map_of (limits T) currency = Some limit"
    and "pyfloat F limit = Inr l"
    and "cd_str chat_data ''volume'' = Inr volume"
    and "pyfloat F volume = Inr v"
    and "\<not> v < l"
  shows "check_limit_and_confirm F K T chat_data w =
           (case trade_show_conf F K T chat_data w of
              (Inl err, evs, chat_data', w') \<Rightarrow> (Inl err, evs, chat_data', w')
            | (Inr u, evs, chat_data', w') \<Rightarrow> (Inr (Goto TRADE_CONFIRM), evs, chat_data', w'))"
  using assms by (simp add: check_limit_and_confirm_def)


text \<open>
  Claim C8. Let a minimum order size be configured for the traded coin, and let it
  parse as the number \<open>l\<close>. \<^verbatim>\<open>trade_volume\<close> stores the entered volume printed with 8
  digits and reads it back as \<open>v\<close>; \<^verbatim>\<open>trade_volume_asset\<close> does the same with the
  entered amount divided by the price. For \<open>v < l\<close> the handler rejects: it tells the
  user that the volume is too low, asks for a new volume and returns to the volume
  entry. For \<open>v \<ge> l\<close> it accepts: it goes on to show the confirmation and returns the
  confirmation step (an exception of \<^verbatim>\<open>trade_show_conf\<close> escapes the handler).
\<close>

theorem volume_minimum_check:
  fixes F :: "'f::{linorder,times,inverse,zero} float_impl"
  assumes "cd_str chat_data ''currency'' = Inr currency"
    and "map_of (limits T) currency = Some limit"
    and "pyfloat F limit = Inr l"
  shows "(pyfloat F (comma_to_dot text) = Inr x \<and> pyfloat F (fmt8 F x) = Inr v \<longrightarrow>
            (v < l \<longrightarrow>
               trade_volume F K T text chat_data w =
                 (Inr (Goto TRADE_VOLUME),
                  [Reply (emo_er @ '' Volume to low. Must be > '' @ limit),
                   LogWarning (emo_er @ '' Volume to low. Must be > '' @ limit),
                   Reply ''Enter new volume''],
                  AList.update ''volume'' (PStr (fmt8 F x)) chat_data, w))
          \<and> (l \<le> v \<longrightarrow>
               trade_volume F K T text chat_data w =
                 (case trade_show_conf F K T
                         (AList.update ''volume'' (PStr (fmt8 F x)) chat_data) w of
                    (Inl err, evs, chat_data', w') \<Rightarrow> (Inl err, evs, chat_data', w')
                  | (Inr u, evs, chat_data', w') \<Rightarrow>
                      (Inr (Goto TRADE_CONFIRM), evs, chat_data', w'))))
       \<and> (pyfloat F (comma_to_dot text) = Inr amount \<and>
          bind_err (cd_str chat_data ''price'') (pyfloat F) = Inr price \<and> price \<noteq> 0 \<and>
          pyfloat F (fmt8 F (amount / price)) = Inr v' \<longrightarrow>
            (v' < l \<longrightarrow>
               trade_volume_asset F K T text chat_data w =
                 (Inr (Goto TRADE_VOLUME),
                  [Reply (emo_er @ '' Volume to low. Must be > '' @ limit),
                   LogWarning (emo_er @ '' Volume to low. Must be > '' @ limit),
                   Reply ''Enter new volume''],
                  AList.update ''volume'' (PStr (fmt8 F (amount / price))) chat_data, w))
          \<and> (l \<le> v' \<longrightarrow>
               trade_volume_asset F K T text chat_data w =
                 (case trade_show_conf F K T
                         (AList.update ''volume'' (PStr (fmt8 F (amount / price))) chat_data) w of
                    (Inl err, evs, chat_data', w') \<Rightarrow> (Inl err, evs, chat_data', w')
                  | (Inr u, evs, chat_data', w') \<Rightarrow>
                      (Inr (Goto TRADE_CONFIRM), evs, chat_data', w'))))"
proof -
  have cur: "cd_str (AList.update ''volume'' (PStr s) chat_data) ''currency'' = Inr currency" for s
    using assms(1) by (simp add: cd_str_update_other)
  have low: "check_limit_and_confirm F K T (AList.update ''volume'' (PStr (fmt8 F y)) chat_data) w =
           (Inr (Goto TRADE_VOLUME),
            [Reply (emo_er @ '' Volume to low. Must be > '' @ limit),
             LogWarning (emo_er @ '' Volume to low. Must be > '' @ limit),
             Reply ''Enter new volume''],
            AList.update ''volume'' (PStr (fmt8 F y)) chat_data, w)"
    if "pyfloat F (fmt8 F y) = Inr u" "u < l" for y u
    using check_limit_low [OF cur assms(2,3) cd_str_update_same that] .
  have ok: "check_limit_and_confirm F K T (AList.update ''volume'' (PStr (fmt8 F y)) chat_data) w =
           (case trade_show_conf F K T (AList.update ''volume'' (PStr (fmt8 F y)) chat_data) w of
              (Inl err, evs, chat_data', w') \<Rightarrow> (Inl err, evs, chat_data', w')
            | (Inr u, evs, chat_data', w') \<Rightarrow> (Inr (Goto TRADE_CONFIRM), evs, chat_data', w'))"
    if "pyfloat F (fmt8 F y) = Inr u" "l \<le> u" for y u
  proof -
    from that(2) have "\<not> u < l" by simp
    from check_limit_ok [OF cur assms(2,3) cd_str_update_same that(1) this] show ?thesis .
  qed
  show ?thesis
    using low ok
    by (auto simp: trade_volume_def trade_volume_asset_def)
qed

text \<open>
  With the minimum 0.002 and the price 20000: the volume 0.001 and the amount 30 are
  rejected, the volume 0.002 (the minimum itself) and the amount 100 are accepted.
\<close>

theorem volume_minimum_check_witness:
  "trade_volume dec_float (scripted_kraken 0 polls) example_tables ''0,001'' limit_order_chat 0 =
     (Inr (Goto TRADE_VOLUME),
      [Reply (emo_er @ '' Volume to low. Must be > 0.002''),
       LogWarning (emo_er @ '' Volume to low. Must be > 0.002''),
       Reply ''Enter new volume''],
      AList.update ''volume'' (PStr ''0.00100000'') limit_order_chat, 0)
   \<and> trade_volume dec_float (scripted_kraken 0 polls) example_tables ''0.002'' limit_order_chat 0 =
     (Inr (Goto TRADE_CONFIRM),
      [Reply (emo_qu @ '' Place this order?'' @ nl @ ''buy 0.002 XBT @ limit 20000 EUR'' @ nl @
         ''(Value: 40 EUR)'')],
      AList.update ''volume'' (PStr ''0.00200000'') limit_order_chat, 0)
   \<and> trade_volume_asset dec_float (scripted_kraken 0 polls) example_tables ''30''
       limit_order_chat 0 =
     (Inr (Goto TRADE_VOLUME),
      [Reply (emo_er @ '' Volume to low. Must be > 0.002''),
       LogWarning (emo_er @ '' Volume to low. Must be > 0.002''),
       Reply ''Enter new volume''],
      AList.update ''volume'' (PStr ''0.00150000'') limit_order_chat, 0)
   \<and> trade_volume_asset dec_float (scripted_kraken 0 polls) example_tables ''100''
       limit_order_chat 0 =
     (Inr (Goto TRADE_CONFIRM),
      [Reply (emo_qu @ '' Place this order?'' @ nl @ ''buy 0.005 XBT @ limit 20000 EUR'' @ nl @
         ''(Value: 100 EUR)'')],
      AList.update ''volume'' (PStr ''0.00500000'') limit_order_chat, 0)"
proof -
  let ?K = "scripted_kraken 0 polls"
  have c: "cd_str limit_order_chat ''currency'' = Inr ''XBT''" by code_simp
  have m: "map_of (limits example_tables) ''XBT'' = Some ''0.002''" by code_simp
  have l: "pyfloat dec_float ''0.002'' = Inr (1 / 500)" by code_simp
  have p: "bind_err (cd_str limit_order_chat ''price'') (pyfloat dec_float) = Inr 20000"
    by code_simp
  have x1: "pyfloat dec_float (comma_to_dot ''0,001'') = Inr (1 / 1000)" by code_simp
  have x2: "pyfloat dec_float (comma_to_dot ''0.002'') = Inr (1 / 500)" by code_simp
  have x3: "pyfloat dec_float (comma_to_dot ''30'') = Inr 30" by code_simp
  have x4: "pyfloat dec_float (comma_to_dot ''100'') = Inr 100" by code_simp
  have f1: "fmt8 dec_float (1 / 1000) = ''0.00100000''" by code_simp
  have f2: "fmt8 dec_float (1 / 500) = ''0.00200000''" by code_simp
  have f3: "fmt8 dec_float (30 / 20000) = ''0.00150000''" by code_simp
  have f4: "fmt8 dec_float (100 / 20000) = ''0.00500000''" by code_simp
  have v1: "pyfloat dec_float ''0.00100000'' = Inr (1 / 1000)" by code_simp
  have v2: "pyfloat dec_float ''0.00200000'' = Inr (1 / 500)" by code_simp
  have v3: "pyfloat dec_float ''0.00150000'' = Inr (3 / 2000)" by code_simp
  have v4: "pyfloat dec_float ''0.00500000'' = Inr (1 / 200)" by code_simp
  have s2: "trade_show_conf dec_float ?K example_tables
              (AList.update ''volume'' (PStr ''0.00200000'') limit_order_chat) 0 =
            (Inr (),
             [Reply (emo_qu @ '' Place this order?'' @ nl @ ''buy 0.002 XBT @ limit 20000 EUR'' @
                nl @ ''(Value: 40 EUR)'')],
             AList.update ''volume'' (PStr ''0.00200000'') limit_order_chat, 0)"
    by code_simp
  have s4: "trade_show_conf dec_float ?K example_tables
              (AList.update ''volume'' (PStr ''0.00500000'') limit_order_chat) 0 =
            (Inr (),
             [Reply (emo_qu @ '' Place this order?'' @ nl @ ''buy 0.005 XBT @ limit 20000 EUR'' @
                nl @ ''(Value: 100 EUR)'')],
             AList.update ''volume'' (PStr ''0.00500000'') limit_order_chat, 0)"
    by code_simp
  note t = volume_minimum_check [OF c m l, where K = ?K and w = 0]
  show ?thesis
    using
      t [of "''0,001''", where x = "1 / 1000" and v = "1 / 1000"]
      t [of "''0.002''", where x = "1 / 500" and v = "1 / 500"]
      t [of "''30''", where amount = 30 and price = 20000 and v' = "3 / 2000"]
      t [of "''100''", where amount = 100 and price = 20000 and v' = "1 / 200"]
      p x1 x2 x3 x4 f1 f2 f3 f4 v1 v2 v3 v4 s2 s4
    by simp
qed

text \<open>
  The volume that is compared is the stored one, rounded to 8 digits: an entered volume
  just below the minimum that rounds up to it is accepted, and the order then carries
  the rounded volume.
\<close>

lemma volume_rounding_example:
  "trade_volume dec_float (scripted_kraken 0 polls) example_tables ''0.001999999''
     limit_order_chat 0 =
     (Inr (Goto TRADE_CONFIRM),
      [Reply (emo_qu @ '' Place this order?'' @ nl @ ''buy 0.002 XBT @ limit 20000 EUR'' @ nl @
         ''(Value: 40 EUR)'')],
      AList.update ''volume'' (PStr ''0.00200000'') limit_order_chat, 0)"
  by code_simp









section \<open>Properties of the all-funds volume\<close>

lemma signed_fmt8_dec_float: "signed_fmt8 dec_float"
  by (simp add: signed_fmt8_def dec_float_def dec_fmt_def Let_def)



text \<open>
  \<^verbatim>\<open>trade_vol_all\<close> after two successful requests, for the volume that the BUY or the
  SELL branch resolves: the one test between stopping and the confirmation is whether
  the volume printed with 8 digits is the text \<^verbatim>\<open>0.00000000\<close>.
\<close>

lemma trade_vol_all_resolved:
  fixes F :: "'f::{ord,minus,times,inverse,zero} float_impl"
  assumes "query K ''Balance'' None True None w = (res_balance, w1)"
    and "error res_balance = []"
    and "query K ''OpenOrders'' None True None w1 = (res_orders, w2)"
    and "error res_orders = []"
    and "cd_str chat_data ''buysell'' = Inr buysell"
    and "upper buysell = ''BUY'' \<and> buy_volume F chat_data res_balance res_orders = Inr volume \<or>
         upper buysell = ''SELL'' \<and> sell_volume F T chat_data res_balance res_orders = Inr volume"
  shows "trade_vol_all F K T chat_data w =
           (if fmt8 F volume = ''0.00000000'' then
              (if upper buysell = ''BUY'' then
                 (case bind_err (cd_get chat_data ''two'') (lookup (assets T)) of
                    Inl err \<Rightarrow>
                      (Inl err, [Reply (emo_wa @ '' Calculating volume...'')],
                       AList.update ''volume'' (PStr (fmt8 F volume)) chat_data, w2)
                  | Inr altname \<Rightarrow>
                      (Inr END,
                       [Reply (emo_wa @ '' Calculating volume...''),
                        Reply (emo_er @ '' Available '' @ altname @ '' volume is 0'')],
                       AList.update ''volume'' (PStr (fmt8 F volume)) chat_data, w2))
               else
                 (case cd_str chat_data ''currency'' of
                    Inl err \<Rightarrow>
                      (Inl err, [Reply (emo_wa @ '' Calculating volume...'')],
                       AList.update ''volume'' (PStr (fmt8 F volume)) chat_data, w2)
                  | Inr currency \<Rightarrow>
                      (Inr END,
                       [Reply (emo_wa @ '' Calculating volume...''),
                        Reply (emo_er @ '' Available '' @ currency @ '' volume is 0'')],
                       AList.update ''volume'' (PStr (fmt8 F volume)) chat_data, w2)))
            else
              (case trade_show_conf F K T
                      (AList.update ''volume'' (PStr (fmt8 F volume)) chat_data) w2 of
                 (Inl err, evs, chat_data', w3) \<Rightarrow>
                   (Inl err, Reply (emo_wa @ '' Calculating volume...'') # evs, chat_data', w3)
               | (Inr u, evs, chat_data', w3) \<Rightarrow>
                   (Inr (Goto TRADE_CONFIRM), Reply (emo_wa @ '' Calculating volume...'') # evs,
                    chat_data', w3)))"
proof -
  note pre = assms(1-5)
  from assms(6) show ?thesis
  proof
    assume b: "upper buysell = ''BUY'' \<and>
      buy_volume F chat_data res_balance res_orders = Inr volume"
    show ?thesis
    proof (cases "fmt8 F volume = ''0.00000000''")
      case True
      with b pre show ?thesis
        by (simp add: trade_vol_all_def handle_api_error_def)
    next
      case False
      with b pre show ?thesis
        by (simp add: trade_vol_all_def handle_api_error_def)
    qed
  next
    assume c: "upper buysell = ''SELL'' \<and>
      sell_volume F T chat_data res_balance res_orders = Inr volume"
    show ?thesis
    proof (cases "fmt8 F volume = ''0.00000000''")
      case True
      with c pre show ?thesis
        by (simp add: trade_vol_all_def handle_api_error_def)
    next
      case False
      with c pre show ?thesis
        by (simp add: trade_vol_all_def handle_api_error_def)
    qed
  qed
qed

text \<open>
  Claim C9. Let both requests of \<^verbatim>\<open>trade_vol_all\<close> succeed and let its BUY or SELL
  branch resolve the number \<open>volume\<close>. The handler ends the conversation (the branch
  "volume is 0") only if \<open>volume\<close> printed with 8 digits is exactly \<^verbatim>\<open>0.00000000\<close>, and
  with that text it never reaches the confirmation step; with any other text it stores
  the text as the volume, shows the confirmation and returns the confirmation step. A
  negative \<open>volume\<close> is printed with a minus sign, so the handler goes on to the
  confirmation with the negative volume.
\<close>

theorem trade_vol_all_zero_test:
  fixes F :: "'f::{ord,minus,times,inverse,zero} float_impl"
  assumes "query K ''Balance'' None True None w = (res_balance, w1)"
    and "error res_balance = []"
    and "query K ''OpenOrders'' None True None w1 = (res_orders, w2)"
    and "error res_orders = []"
    and "cd_str chat_data ''buysell'' = Inr buysell"
    and "upper buysell = ''BUY'' \<and> buy_volume F chat_data res_balance res_orders = Inr volume \<or>
         upper buysell = ''SELL'' \<and> sell_volume F T chat_data res_balance res_orders = Inr volume"
  shows "(fst (trade_vol_all F K T chat_data w) = Inr END \<longrightarrow>
            fmt8 F volume = ''0.00000000'')
       \<and> (fmt8 F volume = ''0.00000000'' \<longrightarrow>
            fst (trade_vol_all F K T chat_data w) \<noteq> Inr (Goto TRADE_CONFIRM))
       \<and> (fmt8 F volume \<noteq> ''0.00000000'' \<longrightarrow>
            trade_vol_all F K T chat_data w =
              (case trade_show_conf F K T
                      (AList.update ''volume'' (PStr (fmt8 F volume)) chat_data) w2 of
                 (Inl err, evs, chat_data', w3) \<Rightarrow>
                   (Inl err, Reply (emo_wa @ '' Calculating volume...'') # evs, chat_data', w3)
               | (Inr u, evs, chat_data', w3) \<Rightarrow>
                   (Inr (Goto TRADE_CONFIRM), Reply (emo_wa @ '' Calculating volume...'') # evs,
                    chat_data', w3)))
       \<and> (signed_fmt8 F \<and> volume < 0 \<longrightarrow>
            prefix ''-'' (fmt8 F volume) \<and>
            trade_vol_all F K T chat_data w =
              (case trade_show_conf F K T
                      (AList.update ''volume'' (PStr (fmt8 F volume)) chat_data) w2 of
                 (Inl err, evs, chat_data', w3) \<Rightarrow>
                   (Inl err, Reply (emo_wa @ '' Calculating volume...'') # evs, chat_data', w3)
               | (Inr u, evs, chat_data', w3) \<Rightarrow>
                   (Inr (Goto TRADE_CONFIRM), Reply (emo_wa @ '' Calculating volume...'') # evs,
                    chat_data', w3)))"
proof -
  note eq = trade_vol_all_resolved [OF assms]
  have neg: "fmt8 F volume \<noteq> ''0.00000000''" if "signed_fmt8 F" "volume < 0"
  proof -
    from that have "prefix ''-'' (fmt8 F volume)" by (simp add: signed_fmt8_def)
    moreover have "\<not> prefix ''-'' ''0.00000000''" by simp
    ultimately show ?thesis by metis
  qed
  have nonzero: "trade_vol_all F K T chat_data w =
              (case trade_show_conf F K T
                      (AList.update ''volume'' (PStr (fmt8 F volume)) chat_data) w2 of
                 (Inl err, evs, chat_data', w3) \<Rightarrow>
                   (Inl err, Reply (emo_wa @ '' Calculating volume...'') # evs, chat_data', w3)
               | (Inr u, evs, chat_data', w3) \<Rightarrow>
                   (Inr (Goto TRADE_CONFIRM), Reply (emo_wa @ '' Calculating volume...'') # evs,
                    chat_data', w3))"
    if "fmt8 F volume \<noteq> ''0.00000000''"
    using eq that by simp
  have stop: "fst (trade_vol_all F K T chat_data w) \<noteq> Inr (Goto TRADE_CONFIRM)"
    if "fmt8 F volume = ''0.00000000''"
  proof (cases "upper buysell = ''BUY''")
    case True
    then show ?thesis
      using eq that
      by (cases "bind_err (cd_get chat_data ''two'') (lookup (assets T))") simp_all
  next
    case False
    then show ?thesis
      using eq that by (cases "cd_str chat_data ''currency''") simp_all
  qed
  have only: "fmt8 F volume = ''0.00000000''"
    if "fst (trade_vol_all F K T chat_data w) = Inr END"
  proof (rule ccontr)
    assume "fmt8 F volume \<noteq> ''0.00000000''"
    note nz = nonzero [OF this]
    obtain r evs chat_data' w3 where
      "trade_show_conf F K T (AList.update ''volume'' (PStr (fmt8 F volume)) chat_data) w2 =
         (r, evs, chat_data', w3)"
      using prod_cases4 by blast
    with nz that show False by (cases r) simp_all
  qed
  show ?thesis
  proof (intro conjI impI)
    assume "fst (trade_vol_all F K T chat_data w) = Inr END"
    then show "fmt8 F volume = ''0.00000000''" by (rule only)
  next
    assume "fmt8 F volume = ''0.00000000''"
    then show "fst (trade_vol_all F K T chat_data w) \<noteq> Inr (Goto TRADE_CONFIRM)"
      by (rule stop)
  next
    assume "fmt8 F volume \<noteq> ''0.00000000''"
    then show "trade_vol_all F K T chat_data w =
              (case trade_show_conf F K T
                      (AList.update ''volume'' (PStr (fmt8 F volume)) chat_data) w2 of
                 (Inl err, evs, chat_data', w3) \<Rightarrow>
                   (Inl err, Reply (emo_wa @ '' Calculating volume...'') # evs, chat_data', w3)
               | (Inr u, evs, chat_data', w3) \<Rightarrow>
                   (Inr (Goto TRADE_CONFIRM), Reply (emo_wa @ '' Calculating volume...'') # evs,
                    chat_data', w3))"
      by (rule nonzero)
  next
    assume a: "signed_fmt8 F \<and> volume < 0"
    then show "prefix ''-'' (fmt8 F volume)" by (simp add: signed_fmt8_def)
    from a have "fmt8 F volume \<noteq> ''0.00000000''" using neg by blast
    then show "trade_vol_all F K T chat_data w =
              (case trade_show_conf F K T
                      (AList.update ''volume'' (PStr (fmt8 F volume)) chat_data) w2 of
                 (Inl err, evs, chat_data', w3) \<Rightarrow>
                   (Inl err, Reply (emo_wa @ '' Calculating volume...'') # evs, chat_data', w3)
               | (Inr u, evs, chat_data', w3) \<Rightarrow>
                   (Inr (Goto TRADE_CONFIRM), Reply (emo_wa @ '' Calculating volume...'') # evs,
                    chat_data', w3))"
      by (rule nonzero)
  qed
qed

text \<open>
  To sell with a balance of 1.5 coins: an open sell order of 2.5 coins resolves the
  volume -1 and the handler asks to confirm the sale of -1.00000000 coins; an open
  sell order of 1.5 coins resolves 0 and the handler stops.
\<close>

theorem trade_vol_all_zero_test_witness:
  "trade_vol_all dec_float (scripted_kraken 0 (reserved_net ''2.50000000'')) example_tables
     sell_order_chat 0 =
     (Inr (Goto TRADE_CONFIRM),
      [Reply (emo_wa @ '' Calculating volume...''),
       Reply (emo_qu @ '' Place this order?'' @ nl @
         ''sell -1.00000000 XBT @ limit 20000 EUR'' @ nl @ ''(Value: -20000.00 EUR)'')],
      AList.update ''volume'' (PStr ''-1.00000000'') sell_order_chat, 2)
   \<and> trade_vol_all dec_float (scripted_kraken 0 (reserved_net ''1.50000000'')) example_tables
     sell_order_chat 0 =
     (Inr END,
      [Reply (emo_wa @ '' Calculating volume...''),
       Reply (emo_er @ '' Available XBT volume is 0'')],
      AList.update ''volume'' (PStr ''0.00000000'') sell_order_chat, 2)"
proof -
  let ?K = "scripted_kraken 0 (reserved_net ''2.50000000'')"
  have q1: "query ?K ''Balance'' None True None 0 = (example_balance, 1)"
    by (simp add: query.simps scripted_kraken_def scripted_def reserved_net_def)
  have q2: "query ?K ''OpenOrders'' None True None 1 = (open_sell_order ''2.50000000'', 2)"
    by (simp add: query.simps scripted_kraken_def scripted_def reserved_net_def)
  have e1: "error example_balance = []" by (simp add: example_balance_def)
  have e2: "error (open_sell_order ''2.50000000'') = []" by (simp add: open_sell_order_def)
  have b: "cd_str sell_order_chat ''buysell'' = Inr ''sell''" by code_simp
  have v: "upper ''sell'' = ''BUY'' \<and>
             buy_volume dec_float sell_order_chat example_balance
               (open_sell_order ''2.50000000'') = Inr (- 1) \<or>
           upper ''sell'' = ''SELL'' \<and>
             sell_volume dec_float example_tables sell_order_chat example_balance
               (open_sell_order ''2.50000000'') = Inr (- 1)"
    by code_simp
  have f: "fmt8 dec_float (- 1) = ''-1.00000000''" by code_simp
  have s: "trade_show_conf dec_float ?K example_tables
             (AList.update ''volume'' (PStr ''-1.00000000'') sell_order_chat) 2 =
           (Inr (),
            [Reply (emo_qu @ '' Place this order?'' @ nl @
               ''sell -1.00000000 XBT @ limit 20000 EUR'' @ nl @ ''(Value: -20000.00 EUR)'')],
            AList.update ''volume'' (PStr ''-1.00000000'') sell_order_chat, 2)"
    by code_simp
  have z: "trade_vol_all dec_float (scripted_kraken 0 (reserved_net ''1.50000000''))
       example_tables sell_order_chat 0 =
     (Inr END,
      [Reply (emo_wa @ '' Calculating volume...''),
       Reply (emo_er @ '' Available XBT volume is 0'')],
      AList.update ''volume'' (PStr ''0.00000000'') sell_order_chat, 2)"
    by code_simp
  have n: "signed_fmt8 dec_float \<and> (- 1 :: rat) < 0"
    by (simp add: signed_fmt8_dec_float)
  show ?thesis
    using trade_vol_all_zero_test [OF q1 e1 q2 e2 b v] n f s z
    by simp
qed

section \<open>Properties of the button menu\<close>

lemma concat_slices_take:
  "concat (map (\<lambda>k. slice xs (k * n) (k * n + n)) [0 ..< m]) = take (m * n) xs"
proof (induction m)
  case 0
  show ?case by simp
next
  case (Suc m)
  have "take (m * n) xs @ take n (drop (m * n) xs) = take (m * n + n) xs"
    by (simp add: take_add)
  with Suc show ?case by (simp add: slice_def add.commute)
qed

lemma ceil_div_covers:
  assumes "0 < n"
  shows "(len::nat) \<le> ((len + n - 1) div n) * n"
proof -
  have "len + n - 1 = ((len + n - 1) div n) * n + (len + n - 1) mod n" by simp
  moreover have "(len + n - 1) mod n < n" using assms by simp
  ultimately show ?thesis using assms by linarith
qed

lemma ceil_div_last:
  assumes "0 < n" "k < (len + n - 1) div n"
  shows "k * n < (len::nat)"
proof -
  have "Suc k \<le> (len + n - 1) div n" using assms by simp
  then have "Suc k * n \<le> ((len + n - 1) div n) * n" by (rule mult_le_mono1)
  also have "\<dots> \<le> len + n - 1" by simp
  finally show ?thesis using assms by simp
qed

lemma ceil_div_tight:
  assumes "0 < n" "Suc k < (len + n - 1) div n"
  shows "Suc k * n \<le> (len::nat)"
  using ceil_div_last [OF assms] by simp

lemma menu_rows_eq:
  "0 \<le> n_cols \<Longrightarrow> menu_rows buttons n_cols =
     map (\<lambda>k. slice buttons (k * nat n_cols) (k * nat n_cols + nat n_cols))
       [0 ..< (length buttons + nat n_cols - 1) div nat n_cols]"
  by (simp add: menu_rows_def range_step_def comp_def)

lemma concat_menu_rows: "1 \<le> n_cols \<Longrightarrow> concat (menu_rows buttons n_cols) = buttons"
  using ceil_div_covers [of "nat n_cols" "length buttons"]
  by (simp add: menu_rows_eq concat_slices_take)

lemma butlast_upt0: "butlast [0 ..< m] = [0 ..< m - 1]"
  by (cases m) simp_all

lemma menu_rows_full:
  assumes "1 \<le> n_cols" "r \<in> set (butlast (menu_rows buttons n_cols))"
  shows "int (length r) = n_cols"
proof -
  let ?n = "nat n_cols" and ?m = "(length buttons + nat n_cols - 1) div nat n_cols"
  have n: "0 < ?n" using assms(1) by simp
  from assms have "r \<in> set (map (\<lambda>k. slice buttons (k * ?n) (k * ?n + ?n)) (butlast [0 ..< ?m]))"
    by (simp add: menu_rows_eq map_butlast)
  then obtain k where "k < ?m - 1" and r: "r = slice buttons (k * ?n) (k * ?n + ?n)"
    by (auto simp: butlast_upt0)
  then have k: "Suc k < ?m" by simp
  have "Suc k * ?n \<le> length buttons" using ceil_div_tight [OF n k] .
  then have "length r = ?n" by (simp add: r slice_def)
  then show ?thesis using assms(1) by simp
qed

lemma menu_rows_nonempty:
  assumes "1 \<le> n_cols" "r \<in> set (menu_rows buttons n_cols)"
  shows "r \<noteq> [] \<and> int (length r) \<le> n_cols"
proof -
  let ?n = "nat n_cols" and ?m = "(length buttons + nat n_cols - 1) div nat n_cols"
  have n: "0 < ?n" using assms(1) by simp
  from assms obtain k where k: "k < ?m" and r: "r = slice buttons (k * ?n) (k * ?n + ?n)"
    by (auto simp: menu_rows_eq)
  have "k * ?n < length buttons" using ceil_div_last [OF n k] .
  then show ?thesis using assms(1) by (simp add: r slice_def)
qed

text \<open>
  Claim C10, as the code has it. For every list of buttons and every \<open>n_cols \<ge> 1\<close>,
  \<open>build_menu\<close> returns the header row, the rows of the buttons and the footer row, in
  this order, where the header row and the footer row are there exactly when the
  argument is given and is not the empty list (an empty list is treated as no row at
  all), and are unchanged. The rows of the buttons, concatenated, are the input list in
  its order; every row but the last has exactly \<open>n_cols\<close> elements, and no row is empty
  or longer than \<open>n_cols\<close>.
\<close>

theorem build_menu_layout:
  assumes "1 \<le> n_cols"
  shows "build_menu buttons n_cols header_buttons footer_buttons =
           Inr ((case header_buttons of None \<Rightarrow> [] | Some h \<Rightarrow> if h = [] then [] else [h]) @
                menu_rows buttons n_cols @
                (case footer_buttons of None \<Rightarrow> [] | Some f \<Rightarrow> if f = [] then [] else [f]))
         \<and> concat (menu_rows buttons n_cols) = buttons
         \<and> (\<forall>r \<in> set (butlast (menu_rows buttons n_cols)). int (length r) = n_cols)
         \<and> (\<forall>r \<in> set (menu_rows buttons n_cols). r \<noteq> [] \<and> int (length r) \<le> n_cols)"
proof -
  have "build_menu buttons n_cols header_buttons footer_buttons =
          Inr ((case header_buttons of None \<Rightarrow> [] | Some h \<Rightarrow> if h = [] then [] else [h]) @
               menu_rows buttons n_cols @
               (case footer_buttons of None \<Rightarrow> [] | Some f \<Rightarrow> if f = [] then [] else [f]))"
    using assms by (cases header_buttons; cases footer_buttons) (simp_all add: build_menu_def)
  moreover have "concat (menu_rows buttons n_cols) = buttons"
    using assms by (rule concat_menu_rows)
  moreover have "\<forall>r \<in> set (butlast (menu_rows buttons n_cols)). int (length r) = n_cols"
    using assms menu_rows_full by blast
  moreover have "\<forall>r \<in> set (menu_rows buttons n_cols). r \<noteq> [] \<and> int (length r) \<le> n_cols"
    using assms menu_rows_nonempty by blast
  ultimately show ?thesis by simp
qed

text \<open>
  The menu of \<^verbatim>\<open>trade_cmd\<close> style: three buttons in two columns with a footer.
\<close>

theorem build_menu_layout_witness:
  "build_menu [''BUY'', ''SELL'', ''ALL''] 2 None (Some [''CANCEL'']) =
     Inr ([] @ menu_rows [''BUY'', ''SELL'', ''ALL''] 2 @ [[''CANCEL'']])
   \<and> concat (menu_rows [''BUY'', ''SELL'', ''ALL''] 2) = [''BUY'', ''SELL'', ''ALL'']"
  using build_menu_layout [of 2 "[''BUY'', ''SELL'', ''ALL'']" None "Some [''CANCEL'']"]
  by simp

text \<open>
  Claim C10 as stated fails where a header or a footer is given and is the empty list:
  the claim has the given row in the menu, the code leaves it out.
\<close>

theorem build_menu_empty_header_counterexample:
  "build_menu [''YES''] 1 (Some []) (Some []) = Inr [[''YES'']]
   \<and> build_menu [''YES''] 1 (Some []) (Some []) \<noteq> Inr ([] # [[''YES'']] @ [[]])"
  by (simp add: build_menu_def menu_rows_def range_step_def slice_def)

end
